theory Spec2Isabelle
  imports Complex_Main "HOL-Library.Multiset" "HOL-Library.AList" "HOL-Library.Word"
begin

unbundle bit_operations_syntax

section \<open>Data model\<close>

text \<open>
  JavaScript numbers are modelled as exact reals, counts and array indices as naturals.
  A \<^verbatim>\<open>THREE.Vector3\<close> is a triple of reals.
\<close>

type_synonym vec3 = "real \<times> real \<times> real"

text \<open>
  A high-dimensional vector is a JavaScript array object: \<open>vref\<close> is its reference (what
  \<^verbatim>\<open>===\<close> compares), \<open>comps\<close> its components.
\<close>

record hvec =
  vref :: nat
  comps :: "real list"

text \<open>
  A point mesh (\<^verbatim>\<open>THREE.Mesh\<close> built by \<^verbatim>\<open>PointCloud.createMeshes\<close>): \<open>mid\<close> is the
  object identity, \<open>label\<close> and \<open>vector\<close> are \<^verbatim>\<open>userData.label\<close> and
  \<^verbatim>\<open>userData.vector\<close>, and \<open>parent\<close> is the world position of the parent
  \<^verbatim>\<open>Object3D\<close>, \<open>None\<close> when the mesh has no parent. The points group is never moved,
  rotated or scaled, so the parent's \<^verbatim>\<open>position\<close> and its world position coincide.
\<close>

record mesh =
  mid :: nat
  label :: string
  vector :: hvec
  parent :: "vec3 option"

section \<open>Vector arithmetic of the geometry library\<close>

definition sub3 :: "vec3 \<Rightarrow> vec3 \<Rightarrow> vec3" where
  "sub3 a b = (case a of (ax, ay, az) \<Rightarrow> case b of (bx, by, bz) \<Rightarrow> (ax - bx, ay - by, az - bz))"

definition dot3 :: "vec3 \<Rightarrow> vec3 \<Rightarrow> real" where
  "dot3 a b = (case a of (ax, ay, az) \<Rightarrow> case b of (bx, by, bz) \<Rightarrow> ax * bx + ay * by + az * bz)"

definition lengthSq :: "vec3 \<Rightarrow> real" where
  "lengthSq a = dot3 a a"

definition distanceToSquared :: "vec3 \<Rightarrow> vec3 \<Rightarrow> real" where
  "distanceToSquared a b = lengthSq (sub3 a b)"

definition distanceTo :: "vec3 \<Rightarrow> vec3 \<Rightarrow> real" where
  "distanceTo a b = sqrt (distanceToSquared a b)"

section \<open>Cosine distance (utils)\<close>

text \<open>
  \<^verbatim>\<open>vecA.reduce((sum, a, i) => sum + a * vecB[i], 0)\<close> is a left fold over the entries of
  \<open>vecA\<close> paired with the entries of \<open>vecB\<close> at the same index. The vectors of one data
  set share one dimension; the theorems about \<open>cosineDistance\<close> assume equal lengths.
\<close>

definition dotProduct :: "real list \<Rightarrow> real list \<Rightarrow> real" where
  "dotProduct vecA vecB = foldl (\<lambda>sum (a, b). sum + a * b) 0 (zip vecA vecB)"

definition magnitude :: "real list \<Rightarrow> real" where
  "magnitude vec = sqrt (foldl (\<lambda>sum a. sum + a * a) 0 vec)"

definition cosineDistance :: "real list \<Rightarrow> real list \<Rightarrow> real" where
  "cosineDistance vecA vecB =
     (let magnitudeA = magnitude vecA;
          magnitudeB = magnitude vecB
      in if magnitudeA = 0 \<or> magnitudeB = 0 then 1
         else 1 - dotProduct vecA vecB / (magnitudeA * magnitudeB))"

section \<open>Spatial grid (grid.ts)\<close>

definition GRID_SIZE :: real where
  "GRID_SIZE = 5"

text \<open>
  The key string \<^verbatim>\<open>`${gridX}_${gridY}_${gridZ}`\<close> is modelled by the triple of cell
  coordinates it renders.
\<close>

type_synonym cell_key = "int \<times> int \<times> int"

type_synonym grid = "cell_key \<rightharpoonup> mesh list"

definition getKey :: "vec3 \<Rightarrow> cell_key" where
  "getKey position =
     (case position of (x, y, z) \<Rightarrow>
        (\<lfloor>x / GRID_SIZE\<rfloor>, \<lfloor>y / GRID_SIZE\<rfloor>, \<lfloor>z / GRID_SIZE\<rfloor>))"

definition build_step :: "grid \<Rightarrow> mesh \<Rightarrow> grid" where
  "build_step g pointMesh =
     (case parent pointMesh of
        None \<Rightarrow> g
      | Some position \<Rightarrow>
          (let key = getKey position;
               g1 = (if g key = None then g(key \<mapsto> []) else g)
           in g1(key \<mapsto> the (g1 key) @ [pointMesh])))"

definition build :: "mesh list \<Rightarrow> grid" where
  "build pointMeshes = foldl build_step Map.empty pointMeshes"

definition cell_hits :: "grid \<Rightarrow> vec3 \<Rightarrow> real \<Rightarrow> cell_key \<Rightarrow> mesh list" where
  "cell_hits g position radiusSq key =
     (case g key of
        None \<Rightarrow> []
      | Some bucket \<Rightarrow>
          filter (\<lambda>m. case parent m of
                         None \<Rightarrow> False
                       | Some worldPosition \<Rightarrow> distanceToSquared position worldPosition < radiusSq)
                 bucket)"

definition query :: "grid \<Rightarrow> vec3 \<Rightarrow> real \<Rightarrow> mesh list" where
  "query g position radius =
     (case position of (px, py, pz) \<Rightarrow>
        (let radiusSq = radius * radius;
             minX = \<lfloor>(px - radius) / GRID_SIZE\<rfloor>;
             maxX = \<lfloor>(px + radius) / GRID_SIZE\<rfloor>;
             minY = \<lfloor>(py - radius) / GRID_SIZE\<rfloor>;
             maxY = \<lfloor>(py + radius) / GRID_SIZE\<rfloor>;
             minZ = \<lfloor>(pz - radius) / GRID_SIZE\<rfloor>;
             maxZ = \<lfloor>(pz + radius) / GRID_SIZE\<rfloor>
         in concat (map (\<lambda>i.
              concat (map (\<lambda>j.
                concat (map (\<lambda>k. cell_hits g position radiusSq (i, j, k))
                  [minZ..maxZ]))
                [minY..maxY]))
              [minX..maxX])))"


section \<open>Example data\<close>

definition mesh_jazz :: mesh where
  "mesh_jazz = \<lparr>mid = 0, label = ''jazz'', vector = \<lparr>vref = 0, comps = [1, 0]\<rparr>,
                 parent = Some (0, 0, 0)\<rparr>"

definition mesh_rock :: mesh where
  "mesh_rock = \<lparr>mid = 1, label = ''rock'', vector = \<lparr>vref = 1, comps = [0, 1]\<rparr>,
                 parent = Some (3, 0, 0)\<rparr>"

definition mesh_folk :: mesh where
  "mesh_folk = \<lparr>mid = 2, label = ''folk'', vector = \<lparr>vref = 2, comps = [1, 0]\<rparr>,
                 parent = Some (0, 20, 0)\<rparr>"

section \<open>High-dimensional neighbour search (PointCloudGenerator)\<close>

text \<open>
  A \<^verbatim>\<open>Map<number, number>\<close> is an association list in insertion order; \<open>AList.update\<close>
  is \<^verbatim>\<open>Map.set\<close> (an existing key keeps its place, a new key goes to the end).
\<close>

type_synonym neighbor_map = "(nat \<times> real) list"

text \<open>
  \<open>record_distance\<close> is the update of the result map for an accepted distance: a new
  index is entered, an index already present keeps the smaller distance.
\<close>

definition record_distance :: "neighbor_map \<Rightarrow> nat \<Rightarrow> real \<Rightarrow> neighbor_map" where
  "record_distance neighborDistances i distance =
     (case map_of neighborDistances i of
        None \<Rightarrow> AList.update i distance neighborDistances
      | Some existingDistance \<Rightarrow>
          if distance < existingDistance
          then AList.update i distance neighborDistances
          else neighborDistances)"

text \<open>
  The body of the inner loop for one candidate \<open>(i, pointVector)\<close>. \<open>sameArray\<close> is the
  outcome of the reference comparison \<^verbatim>\<open>primaryVectors === allVectors\<close>.
\<close>

definition visit_candidate ::
    "bool \<Rightarrow> real \<Rightarrow> hvec \<Rightarrow> neighbor_map \<Rightarrow> nat \<times> hvec \<Rightarrow> neighbor_map" where
  "visit_candidate sameArray neighborRadius primaryVector neighborDistances entry =
     (case entry of (i, pointVector) \<Rightarrow>
        if sameArray \<and> vref primaryVector = vref pointVector then neighborDistances
        else
          (let distance = cosineDistance (comps primaryVector) (comps pointVector)
           in if distance \<le> neighborRadius
              then record_distance neighborDistances i distance
              else neighborDistances))"

definition findHighDimensionalNeighbors ::
    "bool \<Rightarrow> hvec list \<Rightarrow> hvec list \<Rightarrow> real \<Rightarrow> neighbor_map" where
  "findHighDimensionalNeighbors sameArray primaryVectors allVectors neighborRadius =
     foldl (\<lambda>neighborDistances primaryVector.
              foldl (visit_candidate sameArray neighborRadius primaryVector)
                    neighborDistances (enumerate 0 allVectors))
           [] primaryVectors"

text \<open>
  The distances from the primary vectors to one candidate that the search compares: every
  primary vector except, when both arguments are the same array, the candidate object itself.
\<close>

definition compared_distances :: "bool \<Rightarrow> hvec list \<Rightarrow> hvec \<Rightarrow> real list" where
  "compared_distances sameArray primaryVectors pointVector =
     map (\<lambda>p. cosineDistance (comps p) (comps pointVector))
         (filter (\<lambda>p. \<not> (sameArray \<and> vref p = vref pointVector)) primaryVectors)"

section \<open>Rays of the geometry library\<close>

definition add3 :: "vec3 \<Rightarrow> vec3 \<Rightarrow> vec3" where
  "add3 a b = (case a of (ax, ay, az) \<Rightarrow> case b of (bx, by, bz) \<Rightarrow> (ax + bx, ay + by, az + bz))"

definition scale3 :: "real \<Rightarrow> vec3 \<Rightarrow> vec3" where
  "scale3 s a = (case a of (ax, ay, az) \<Rightarrow> (ax * s, ay * s, az * s))"

text \<open>
  \<^verbatim>\<open>Vector3.normalize()\<close> is \<^verbatim>\<open>divideScalar(length() || 1)\<close>, and
  \<^verbatim>\<open>divideScalar(s)\<close> is \<^verbatim>\<open>multiplyScalar(1 / s)\<close>: the zero vector stays the zero vector.
\<close>

definition normalize3 :: "vec3 \<Rightarrow> vec3" where
  "normalize3 a = (let l = sqrt (lengthSq a) in scale3 (1 / (if l = 0 then 1 else l)) a)"

record ray =
  origin :: vec3
  direction :: vec3

text \<open>
  \<^verbatim>\<open>Ray.distanceSqToPoint\<close>: a point behind the origin is measured to the origin, any other
  point to its projection on the ray.
\<close>

definition distanceSqToPoint :: "ray \<Rightarrow> vec3 \<Rightarrow> real" where
  "distanceSqToPoint r point =
     (let directionDistance = dot3 (sub3 point (origin r)) (direction r)
      in if directionDistance < 0 then distanceToSquared (origin r) point
         else distanceToSquared (add3 (origin r) (scale3 directionDistance (direction r))) point)"

section \<open>Point selection (PointSelector)\<close>

text \<open>
  A weight object \<^verbatim>\<open>{[key: string]: number}\<close> is an association list; \<open>AList.update\<close> is
  the assignment \<^verbatim>\<open>weights[label] = w\<close>, \<open>map_of\<close> the property read, \<open>map fst\<close> the own
  keys that \<^verbatim>\<open>for ... in\<close> visits. Labels are taken not to be names of properties of
  \<^verbatim>\<open>Object.prototype\<close>.
\<close>

type_synonym weight_map = "(string \<times> real) list"

text \<open>A point cloud is represented by its \<^verbatim>\<open>getPointMeshes()\<close>; \<open>None\<close> is \<^verbatim>\<open>null\<close>.\<close>

type_synonym point_cloud = "mesh list"

record Options =
  threeDClickRadius :: real
  cameraProximityRadius :: real
  neighborRadius :: real
  includeHighDimensionalNeighbors :: bool

record ManualSelectionState =
  primaryMeshes :: "mesh list"
  selectionWeights :: weight_map
  directlyClickedMesh :: "mesh option"
  neighborDistances :: neighbor_map

record PreservedManualSelection =
  primaryLabels :: "string list"
  clickedLabel :: "string option"
  weights :: weight_map

record PointSelector =
  manualSelectionState :: "ManualSelectionState option"
  proximityMeshes :: "mesh list"
  proximityWeights :: weight_map
  options :: Options

text \<open>What the first ray intersection can be: a point mesh carrying a vector, or anything else.\<close>

datatype scene_object = PointMeshObject mesh | OtherObject

definition initialPointSelector :: "Options \<Rightarrow> PointSelector" where
  "initialPointSelector opts =
     \<lparr>manualSelectionState = None, proximityMeshes = [], proximityWeights = [], options = opts\<rparr>"

text \<open>\<^verbatim>\<open>Object.assign(this.options, newOptions)\<close>: any subset of the options is replaced.\<close>

definition updateOptions :: "PointSelector \<Rightarrow> Options \<Rightarrow> PointSelector" where
  "updateOptions ps newOptions = ps\<lparr>options := newOptions\<rparr>"

text \<open>The linear falloff \<^verbatim>\<open>1 - Math.min(distance, radius) / radius\<close>.\<close>

definition normalizedWeight :: "real \<Rightarrow> real \<Rightarrow> real" where
  "normalizedWeight distance radius = 1 - min distance radius / radius"

text \<open>The loop over all point meshes that collects the meshes near a ray and their weights.\<close>

definition near_ray_step ::
    "ray \<Rightarrow> real \<Rightarrow> mesh list \<times> weight_map \<Rightarrow> mesh \<Rightarrow> mesh list \<times> weight_map" where
  "near_ray_step searchRay radius acc m =
     (case parent m of
        None \<Rightarrow> acc
      | Some worldPosition \<Rightarrow>
          (let distanceToRaySq = distanceSqToPoint searchRay worldPosition
           in if distanceToRaySq < radius * radius
              then (fst acc @ [m],
                    AList.update (label m) (normalizedWeight (sqrt distanceToRaySq) radius) (snd acc))
              else acc))"

definition select_near_ray :: "ray \<Rightarrow> real \<Rightarrow> point_cloud \<Rightarrow> mesh list \<times> weight_map" where
  "select_near_ray searchRay radius pointMeshes =
     foldl (near_ray_step searchRay radius) ([], []) pointMeshes"

text \<open>
  The ray used for the radius test: the clicked ray when nothing was hit, the ray from the
  camera through the hit mesh's world position when a point mesh with a parent was hit, and
  none otherwise.
\<close>

definition search_ray :: "scene_object list \<Rightarrow> ray \<Rightarrow> vec3 \<Rightarrow> ray option" where
  "search_ray intersects clickedRay cameraPosition =
     (case intersects of
        [] \<Rightarrow> Some clickedRay
      | OtherObject # _ \<Rightarrow> None
      | PointMeshObject targetMesh # _ \<Rightarrow>
          (case parent targetMesh of
             None \<Rightarrow> None
           | Some centerPosition \<Rightarrow>
               Some \<lparr>origin = cameraPosition,
                     direction = normalize3 (sub3 centerPosition cameraPosition)\<rparr>))"

definition clicked_mesh :: "scene_object list \<Rightarrow> mesh option" where
  "clicked_mesh intersects =
     (case intersects of PointMeshObject targetMesh # _ \<Rightarrow> Some targetMesh | _ \<Rightarrow> None)"

definition neighbor_fill_step :: "Options \<Rightarrow> point_cloud \<Rightarrow> weight_map \<Rightarrow> nat \<times> real \<Rightarrow> weight_map" where
  "neighbor_fill_step opts pointMeshes w entry =
     (case entry of (index, distance) \<Rightarrow>
        if index < length pointMeshes \<and> map_of w (label (pointMeshes ! index)) = None
        then AList.update (label (pointMeshes ! index))
               (normalizedWeight distance (neighborRadius opts)) w
        else w)"

definition addNeighborsToWeights ::
    "Options \<Rightarrow> point_cloud option \<Rightarrow> neighbor_map \<Rightarrow> weight_map \<Rightarrow> weight_map" where
  "addNeighborsToWeights opts pointCloud neighborDists w =
     (if \<not> includeHighDimensionalNeighbors opts then w
      else case pointCloud of
             None \<Rightarrow> w
           | Some pointMeshes \<Rightarrow> foldl (neighbor_fill_step opts pointMeshes) w neighborDists)"

definition selectByClick ::
    "PointSelector \<Rightarrow> point_cloud option \<Rightarrow> scene_object list \<Rightarrow> ray \<Rightarrow> vec3 \<Rightarrow> PointSelector" where
  "selectByClick ps pointCloud intersects clickedRay cameraPosition =
     (case pointCloud of
        None \<Rightarrow> ps
      | Some pointMeshes \<Rightarrow>
          (let radius = threeDClickRadius (options ps);
               selection = (case search_ray intersects clickedRay cameraPosition of
                              None \<Rightarrow> ([], [])
                            | Some searchRay \<Rightarrow> select_near_ray searchRay radius pointMeshes)
           in if fst selection = [] then ps\<lparr>manualSelectionState := None\<rparr>
              else
                (let neighborDists =
                       (if includeHighDimensionalNeighbors (options ps)
                        then findHighDimensionalNeighbors False
                               (map vector (fst selection)) (map vector pointMeshes)
                               (neighborRadius (options ps))
                        else []);
                     w = (if includeHighDimensionalNeighbors (options ps)
                          then addNeighborsToWeights (options ps) pointCloud neighborDists
                                 (snd selection)
                          else snd selection)
                 in ps\<lparr>manualSelectionState :=
                        Some \<lparr>primaryMeshes = fst selection, selectionWeights = w,
                              directlyClickedMesh = clicked_mesh intersects,
                              neighborDistances = neighborDists\<rparr>\<rparr>)))"

text \<open>
  The loop of \<^verbatim>\<open>updateProximitySelection\<close> over the meshes returned by the grid; a mesh
  without a parent ends the whole method.
\<close>

fun proximity_loop ::
    "vec3 \<Rightarrow> real \<Rightarrow> mesh list \<Rightarrow> mesh list \<times> weight_map \<Rightarrow> mesh list \<times> weight_map" where
  "proximity_loop position radius [] acc = acc"
| "proximity_loop position radius (m # rest) acc =
     (case parent m of
        None \<Rightarrow> acc
      | Some worldPosition \<Rightarrow>
          (let distanceSq = distanceToSquared position worldPosition
           in if distanceSq < radius * radius
              then proximity_loop position radius rest
                     (fst acc @ [m],
                      AList.update (label m) (normalizedWeight (sqrt distanceSq) radius) (snd acc))
              else proximity_loop position radius rest acc))"

definition updateProximitySelection :: "PointSelector \<Rightarrow> point_cloud option \<Rightarrow> vec3 \<Rightarrow> PointSelector" where
  "updateProximitySelection ps pointCloud position =
     (case pointCloud of
        None \<Rightarrow> ps\<lparr>proximityMeshes := [], proximityWeights := []\<rparr>
      | Some pointMeshes \<Rightarrow>
          (let radius = cameraProximityRadius (options ps);
               nearbyMeshes = query (build pointMeshes) position radius;
               res = proximity_loop position radius nearbyMeshes ([], [])
           in ps\<lparr>proximityMeshes := fst res, proximityWeights := snd res\<rparr>))"

text \<open>
  The merge of the manual weights into the copy of the proximity weights: the loop visits
  the keys of the manual weight object and reads each value.
\<close>

definition merge_manual_step :: "weight_map \<Rightarrow> weight_map \<Rightarrow> string \<Rightarrow> weight_map" where
  "merge_manual_step manualWeights combinedWeights lbl =
     (case map_of manualWeights lbl of
        None \<Rightarrow> combinedWeights
      | Some manualWeight \<Rightarrow>
          (case map_of combinedWeights lbl of
             None \<Rightarrow> AList.update lbl manualWeight combinedWeights
           | Some w \<Rightarrow> if manualWeight > w then AList.update lbl manualWeight combinedWeights
                       else combinedWeights))"

definition getCombinedWeights :: "PointSelector \<Rightarrow> point_cloud option \<Rightarrow> weight_map" where
  "getCombinedWeights ps pointCloud =
     (let combinedWeights = proximityWeights ps
      in case manualSelectionState ps of
           None \<Rightarrow> combinedWeights
         | Some st \<Rightarrow>
             (let merged = foldl (merge_manual_step (selectionWeights st)) combinedWeights
                             (map fst (selectionWeights st))
              in if includeHighDimensionalNeighbors (options ps)
                 then addNeighborsToWeights (options ps) pointCloud (neighborDistances st) merged
                 else merged))"

definition recalculateNeighbors :: "PointSelector \<Rightarrow> point_cloud option \<Rightarrow> PointSelector" where
  "recalculateNeighbors ps pointCloud =
     (case manualSelectionState ps of
        None \<Rightarrow> ps
      | Some st \<Rightarrow>
          if \<not> includeHighDimensionalNeighbors (options ps)
          then ps\<lparr>manualSelectionState := Some (st\<lparr>neighborDistances := []\<rparr>)\<rparr>
          else (case pointCloud of
                  None \<Rightarrow> ps
                | Some pointMeshes \<Rightarrow>
                    ps\<lparr>manualSelectionState :=
                         Some (st\<lparr>neighborDistances :=
                                 findHighDimensionalNeighbors False
                                   (map vector (primaryMeshes st)) (map vector pointMeshes)
                                   (neighborRadius (options ps))\<rparr>)\<rparr>))"

definition hasManualSelection :: "PointSelector \<Rightarrow> bool" where
  "hasManualSelection ps = (manualSelectionState ps \<noteq> None)"

definition getPreservedManualSelection :: "PointSelector \<Rightarrow> PreservedManualSelection option" where
  "getPreservedManualSelection ps =
     (case manualSelectionState ps of
        None \<Rightarrow> None
      | Some st \<Rightarrow>
          Some \<lparr>primaryLabels = map label (primaryMeshes st),
                clickedLabel = map_option label (directlyClickedMesh st),
                weights = selectionWeights st\<rparr>)"

text \<open>The loop of \<^verbatim>\<open>restoreManualSelection\<close> over the meshes of the new point cloud.\<close>

definition restore_step ::
    "PreservedManualSelection \<Rightarrow> mesh list \<times> mesh option \<Rightarrow> mesh \<Rightarrow> mesh list \<times> mesh option" where
  "restore_step preserved acc m =
     (let newPrimaryMeshes = (if label m \<in> set (primaryLabels preserved)
                              then fst acc @ [m] else fst acc);
          newClickedMesh = (if Some (label m) = clickedLabel preserved then Some m else snd acc)
      in (newPrimaryMeshes, newClickedMesh))"

definition restoreManualSelection ::
    "PointSelector \<Rightarrow> PreservedManualSelection option \<Rightarrow> point_cloud \<Rightarrow> PointSelector" where
  "restoreManualSelection ps preservedOpt pointMeshes =
     (case preservedOpt of
        None \<Rightarrow> ps
      | Some preserved \<Rightarrow>
          (let found = foldl (restore_step preserved) ([], None) pointMeshes
           in if length (fst found) > 0
              then ps\<lparr>manualSelectionState :=
                        Some \<lparr>primaryMeshes = fst found,
                              selectionWeights = weights preserved,
                              directlyClickedMesh = snd found,
                              neighborDistances =
                                (if includeHighDimensionalNeighbors (options ps)
                                 then findHighDimensionalNeighbors False
                                        (map vector (fst found)) (map vector pointMeshes)
                                        (neighborRadius (options ps))
                                 else [])\<rparr>\<rparr>
              else ps))"

section \<open>Reference notions for the weight combination\<close>

text \<open>
  The stored selection weight of a label: its entry in the \<^verbatim>\<open>selectionWeights\<close> of the
  manual selection state, if any. That object is filled by \<open>selectByClick\<close>, with the
  manual weights of the primary meshes and with the neighbour-derived weights that the
  click folds in for labels no primary mesh carries.
\<close>

definition storedWeight :: "PointSelector \<Rightarrow> string \<Rightarrow> real option" where
  "storedWeight ps lbl =
     (case manualSelectionState ps of None \<Rightarrow> None | Some st \<Rightarrow> map_of (selectionWeights st) lbl)"

text \<open>
  The manual weight of a label at a click: the weight of the last mesh of the point cloud
  that carries the label and passes the radius test of the search ray, as \<open>selectByClick\<close>
  computes it for its primary meshes.
\<close>

definition primary_entry :: "ray \<Rightarrow> real \<Rightarrow> mesh \<Rightarrow> (string \<times> real) option" where
  "primary_entry searchRay radius m =
     (case parent m of
        None \<Rightarrow> None
      | Some worldPosition \<Rightarrow>
          if distanceSqToPoint searchRay worldPosition < radius * radius
          then Some (label m,
                     normalizedWeight (sqrt (distanceSqToPoint searchRay worldPosition)) radius)
          else None)"

definition primary_entries :: "ray \<Rightarrow> real \<Rightarrow> point_cloud \<Rightarrow> (string \<times> real) list" where
  "primary_entries searchRay radius pointMeshes =
     List.map_filter (primary_entry searchRay radius) pointMeshes"

definition manualPrimaryWeight ::
    "PointSelector \<Rightarrow> point_cloud \<Rightarrow> scene_object list \<Rightarrow> ray \<Rightarrow> vec3 \<Rightarrow> string \<Rightarrow> real option" where
  "manualPrimaryWeight ps pointMeshes intersects clickedRay cameraPosition lbl =
     (case search_ray intersects clickedRay cameraPosition of
        None \<Rightarrow> None
      | Some searchRay \<Rightarrow>
          map_of (rev (primary_entries searchRay (threeDClickRadius (options ps)) pointMeshes)) lbl)"

text \<open>
  The names of the properties that a weight object inherits from \<^verbatim>\<open>Object.prototype\<close>. The
  tests \<^verbatim>\<open>label in weights\<close> and \<^verbatim>\<open>weights[label] === undefined\<close> of the source see them as
  present on an empty object; the association lists do not, so the properties of the
  weight combination are stated for the other labels.
\<close>

definition object_prototype_keys :: "string list" where
  "object_prototype_keys =
     [''constructor'', ''__proto__'', ''hasOwnProperty'', ''isPrototypeOf'',
      ''propertyIsEnumerable'', ''toLocaleString'', ''toString'', ''valueOf'',
      ''__defineGetter__'', ''__defineSetter__'', ''__lookupGetter__'', ''__lookupSetter__'']"

text \<open>
  The neighbour-derived weight of a label: the falloff weight of the first entry of the
  neighbour-distance map whose index is a mesh of the point cloud carrying that label, when
  neighbour inclusion is enabled and a manual selection and a point cloud exist.
\<close>

definition neighborWeight :: "PointSelector \<Rightarrow> point_cloud option \<Rightarrow> string \<Rightarrow> real option" where
  "neighborWeight ps pointCloud lbl =
     (case manualSelectionState ps of
        None \<Rightarrow> None
      | Some st \<Rightarrow>
          (case pointCloud of
             None \<Rightarrow> None
           | Some pointMeshes \<Rightarrow>
               if includeHighDimensionalNeighbors (options ps)
               then map_option (\<lambda>entry. normalizedWeight (snd entry) (neighborRadius (options ps)))
                      (find (\<lambda>entry. fst entry < length pointMeshes
                                    \<and> label (pointMeshes ! fst entry) = lbl)
                            (neighborDistances st))
               else None))"

text \<open>
  The combination as the specification words it: the maximum of the three weights, a
  source that does not mention the label counting as \<open>0\<close>, and no entry when no source
  mentions the label.
\<close>

definition spec_combined :: "real option \<Rightarrow> real option \<Rightarrow> real option \<Rightarrow> real option" where
  "spec_combined p m n =
     (if p = None \<and> m = None \<and> n = None then None
      else Some (max (max (case p of None \<Rightarrow> 0 | Some x \<Rightarrow> x)
                          (case m of None \<Rightarrow> 0 | Some x \<Rightarrow> x))
                     (case n of None \<Rightarrow> 0 | Some x \<Rightarrow> x)))"

text \<open>
  The combination with gap filling: the maximum of the proximity weight and the stored
  selection weight where both are present, the one that is present otherwise; the
  neighbour-derived weight only when neither of the two mentions the label.
\<close>

definition gap_fill_combined :: "real option \<Rightarrow> real option \<Rightarrow> real option \<Rightarrow> real option" where
  "gap_fill_combined p m n =
     (case p of
        None \<Rightarrow> (case m of None \<Rightarrow> n | Some b \<Rightarrow> Some b)
      | Some a \<Rightarrow> (case m of None \<Rightarrow> Some a | Some b \<Rightarrow> Some (max a b)))"

section \<open>Example selection\<close>

definition example_options :: Options where
  "example_options = \<lparr>threeDClickRadius = 4, cameraProximityRadius = 2, neighborRadius = 1,
                        includeHighDimensionalNeighbors = True\<rparr>"

definition example_cloud :: point_cloud where
  "example_cloud = [mesh_jazz, mesh_rock, mesh_folk]"

text \<open>
  A click from the camera at \<open>(3, 0, 1)\<close> that hits the mesh labelled rock at \<open>(3, 0, 0)\<close>;
  the mesh labelled jazz lies at distance \<open>3\<close> from the search ray, the mesh labelled folk
  far from it, with the same vector direction as jazz.
\<close>

definition example_clicked :: PointSelector where
  "example_clicked =
     selectByClick (initialPointSelector example_options) (Some example_cloud)
       [PointMeshObject mesh_rock] \<lparr>origin = (3, 0, 1), direction = (0, 0, - 1)\<rparr> (3, 0, 1)"

text \<open>
  The same selector after the camera has moved to \<open>(0, 19, 0)\<close>, at distance \<open>1\<close> from the
  mesh labelled folk.
\<close>

definition example_near_folk :: PointSelector where
  "example_near_folk = updateProximitySelection example_clicked (Some example_cloud) (0, 19, 0)"

section \<open>Reference notions for the manual selection\<close>

text \<open>
  No mesh of the point cloud falls within the click radius of the search ray: the distance
  of its world position to the ray (the \<^verbatim>\<open>distance\<close> of the source, the square root of
  \<^verbatim>\<open>distanceSqToPoint\<close>) is not less than \<^verbatim>\<open>threeDClickRadius\<close>. When there is no search
  ray or no point cloud there is no such mesh.
\<close>

definition no_item_within_radius ::
    "PointSelector \<Rightarrow> point_cloud option \<Rightarrow> scene_object list \<Rightarrow> ray \<Rightarrow> vec3 \<Rightarrow> bool" where
  "no_item_within_radius ps pointCloud intersects clickedRay cameraPosition =
     (case search_ray intersects clickedRay cameraPosition of
        None \<Rightarrow> True
      | Some searchRay \<Rightarrow>
          list_all (\<lambda>m. case parent m of
                           None \<Rightarrow> True
                         | Some q \<Rightarrow> \<not> sqrt (distanceSqToPoint searchRay q)
                                        < threeDClickRadius (options ps))
                   (case pointCloud of None \<Rightarrow> [] | Some pointMeshes \<Rightarrow> pointMeshes))"




text \<open>A re-projection that kept neither of the two selected labels.\<close>

definition mesh_punk :: mesh where
  "mesh_punk = \<lparr>mid = 3, label = ''punk'', vector = \<lparr>vref = 3, comps = [1, 1]\<rparr>,
                 parent = Some (1, 1, 1)\<rparr>"

definition reprojected_cloud :: point_cloud where
  "reprojected_cloud = [mesh_punk]"

section \<open>Choosing the embeddings of a point cloud (PointCloudGenerator)\<close>

text \<open>
  The generator \<^verbatim>\<open>mulberry32\<close>. Its state is the closure variable \<^verbatim>\<open>seed\<close> modulo
  \<open>2^32\<close>: the bit operations and \<^verbatim>\<open>Math.imul\<close> read their operands modulo \<open>2^32\<close>, and the
  sum \<^verbatim>\<open>seed += 0x6D2B79F5\<close> stays an exact integer. One call returns the numerator \<open>u\<close> of
  the result \<open>u / 2^32\<close> and the new state.
\<close>

definition mulberry32 :: "32 word \<Rightarrow> 32 word \<times> 32 word" where
  "mulberry32 seed =
     (let seed1 = seed + 0x6D2B79F5;
          t1 = (seed1 XOR drop_bit 15 seed1) * (seed1 OR 1);
          t2 = t1 XOR (t1 + (t1 XOR drop_bit 7 t1) * (t1 OR 61))
      in (t2 XOR drop_bit 14 t2, seed1))"

text \<open>
  \<^verbatim>\<open>shuffleEmbeddings\<close>: for \<open>i\<close> from \<open>length - 1\<close> down to \<open>1\<close>, draw
  \<open>j = floor (rng () * (i + 1))\<close> and swap the entries \<open>i\<close> and \<open>j\<close>. \<open>shuffle_from k\<close> is
  the loop from \<open>i = k\<close> on.
\<close>

fun shuffle_from :: "nat \<Rightarrow> 'a list \<Rightarrow> 32 word \<Rightarrow> 'a list \<times> 32 word" where
  "shuffle_from 0 embeddings seed = (embeddings, seed)"
| "shuffle_from (Suc k) embeddings seed =
     (let r = mulberry32 seed;
          i = Suc k;
          j = (unat (fst r) * (i + 1)) div 2 ^ 32
      in shuffle_from k (embeddings[i := embeddings ! j, j := embeddings ! i]) (snd r))"

definition shuffleEmbeddings :: "'a list \<Rightarrow> 32 word \<Rightarrow> 'a list \<times> 32 word" where
  "shuffleEmbeddings embeddings seed = shuffle_from (length embeddings - 1) embeddings seed"

text \<open>
  The part of \<^verbatim>\<open>generatePointCloudData\<close> that computes \<^verbatim>\<open>selectedEmbeddings\<close> from the
  entries of the embeddings cache, the requested point count and the previous selection;
  the state of the generator is threaded through.
\<close>

type_synonym embedding = "string \<times> real list"

definition selectEmbeddings ::
    "embedding list \<Rightarrow> nat \<Rightarrow> embedding list \<Rightarrow> 32 word \<Rightarrow> embedding list \<times> 32 word" where
  "selectEmbeddings embeddingsCache pointCount currentSelectedEmbeddings seed =
     (let shuffled = (if length currentSelectedEmbeddings = 0
                      then shuffleEmbeddings embeddingsCache seed
                      else (embeddingsCache, seed));
          allEmbeddings = fst shuffled;
          seed1 = snd shuffled;
          selectedEmbeddings = (if length currentSelectedEmbeddings = 0
                                then take pointCount allEmbeddings
                                else currentSelectedEmbeddings)
      in if length selectedEmbeddings > pointCount
         then (take pointCount selectedEmbeddings, seed1)
         else if length selectedEmbeddings < pointCount
         then (let selectedLabels = set (map fst selectedEmbeddings);
                   newEmbeddings = take (pointCount - length selectedEmbeddings)
                                     (filter (\<lambda>e. fst e \<notin> selectedLabels) allEmbeddings);
                   r = shuffleEmbeddings newEmbeddings seed1
               in (selectedEmbeddings @ fst r, snd r))
         else (selectedEmbeddings, seed1))"

text \<open>The entries of the cache that the previous selection has not used, in cache order.\<close>

definition unused_pool :: "embedding list \<Rightarrow> embedding list \<Rightarrow> embedding list" where
  "unused_pool embeddingsCache selected =
     filter (\<lambda>e. fst e \<notin> fst ` set selected) embeddingsCache"

definition example_cache :: "embedding list" where
  "example_cache = [(''jazz'', [1, 0]), (''rock'', [0, 1]), (''folk'', [1, 0]), (''punk'', [1, 1])]"

text \<open>
  The selection as the specification words its third case: the unused pool is shuffled by
  the seeded generator and the entries still needed are drawn from the shuffled pool. The
  other three cases are those of the code.
\<close>

definition spec_selectEmbeddings ::
    "embedding list \<Rightarrow> nat \<Rightarrow> embedding list \<Rightarrow> 32 word \<Rightarrow> embedding list" where
  "spec_selectEmbeddings embeddingsCache pointCount previous seed =
     (if length previous = pointCount then previous
      else if length previous > pointCount then take pointCount previous
      else if previous = [] then take pointCount (fst (shuffleEmbeddings embeddingsCache seed))
      else previous @ take (pointCount - length previous)
                        (fst (shuffleEmbeddings (unused_pool embeddingsCache previous) seed)))"

section \<open>Label visibility (LabelRenderer)\<close>

text \<open>
  What the renderer reads from the scene: the camera position, the frustum test of the
  camera (\<^verbatim>\<open>frustum.containsPoint\<close>), the distance of the first intersection of a ray with
  the occlusion hull (\<open>None\<close> when the ray misses it), and the world position and direction
  of the spaceship, apex and axis of the viewing cone.
\<close>

record camera_view =
  cameraPos :: vec3
  frustumContains :: "vec3 \<Rightarrow> bool"
  hullHit :: "vec3 \<Rightarrow> vec3 \<Rightarrow> real option"
  coneApex :: vec3
  coneAxis :: vec3

definition isOccluded :: "camera_view \<Rightarrow> mesh \<Rightarrow> bool" where
  "isOccluded view m =
     (case parent m of
        None \<Rightarrow> True
      | Some worldPosition \<Rightarrow>
          (let distanceToCamera = distanceTo worldPosition (cameraPos view);
               dir = normalize3 (sub3 worldPosition (cameraPos view))
           in case hullHit view (cameraPos view) dir of
                None \<Rightarrow> False
              | Some hitDistance \<Rightarrow> hitDistance < distanceToCamera - 5 / 100))"

text \<open>The forward cone test on a world position.\<close>

definition in_cone :: "camera_view \<Rightarrow> real \<Rightarrow> real \<Rightarrow> vec3 \<Rightarrow> bool" where
  "in_cone view labelSelectionAngleTan labelSelectionConeHeight worldPosition =
     (let toPoint = sub3 worldPosition (coneApex view);
          projection = dot3 toPoint (coneAxis view)
      in projection > 0 \<and> projection < labelSelectionConeHeight
         \<and> (let radiusAtProjection = projection * labelSelectionAngleTan;
                 distanceToAxisSq = lengthSq toPoint - projection * projection
             in distanceToAxisSq < radiusAtProjection * radiusAtProjection))"

text \<open>
  The body of the candidate loop for one mesh: the candidate entry it pushes, if any.
\<close>

definition candidate_entry ::
    "camera_view \<Rightarrow> mesh list \<Rightarrow> real \<Rightarrow> real \<Rightarrow> mesh \<Rightarrow> (mesh \<times> real) option" where
  "candidate_entry view highlightedObjects labelSelectionAngleTan labelSelectionConeHeight m =
     (if m \<in> set highlightedObjects then None
      else case parent m of
             None \<Rightarrow> None
           | Some worldPosition \<Rightarrow>
               if \<not> frustumContains view worldPosition then None
               else if in_cone view labelSelectionAngleTan labelSelectionConeHeight worldPosition
                       \<and> \<not> isOccluded view m
                    then Some (m, distanceTo worldPosition (cameraPos view))
                    else None)"

text \<open>
  The candidate loop over the renderer's meshes, with
  \<^verbatim>\<open>labelSelectionAngleTan = Math.tan(degToRad(labelSelectionConeDegrees))\<close>.
\<close>

definition label_candidates ::
    "mesh list \<Rightarrow> camera_view \<Rightarrow> mesh list \<Rightarrow> real \<Rightarrow> real \<Rightarrow> (mesh \<times> real) list" where
  "label_candidates meshes view highlightedObjects labelSelectionConeDegrees labelSelectionConeHeight =
     List.map_filter
       (candidate_entry view highlightedObjects (tan (labelSelectionConeDegrees * (pi / 180)))
          labelSelectionConeHeight) meshes"

text \<open>
  A \<^verbatim>\<open>Set\<close> built from an array: the elements in order of first occurrence.
\<close>

definition set_add :: "'a list \<Rightarrow> 'a \<Rightarrow> 'a list" where
  "set_add s x = (if x \<in> set s then s else s @ [x])"

definition new_Set :: "'a list \<Rightarrow> 'a list" where
  "new_Set xs = foldl set_add [] xs"

text \<open>
  The \<^verbatim>\<open>style.visibility\<close> of the label element of a mesh. A mesh has a label element
  exactly when it has a parent (\<^verbatim>\<open>createMeshes\<close> adds one to every parent).
\<close>

datatype visibility = Unset | Hidden | Visible

record LabelRenderer =
  pointsWithVisibleLabels :: "mesh list"
  labelVisibility :: "mesh \<Rightarrow> visibility"

definition hide_step :: "mesh list \<Rightarrow> (mesh \<Rightarrow> visibility) \<Rightarrow> mesh \<Rightarrow> (mesh \<Rightarrow> visibility)" where
  "hide_step newVisibleMeshes vis m =
     (if m \<notin> set newVisibleMeshes \<and> parent m \<noteq> None then vis(m := Hidden) else vis)"

definition show_step :: "(mesh \<Rightarrow> visibility) \<Rightarrow> mesh \<Rightarrow> (mesh \<Rightarrow> visibility)" where
  "show_step vis m = (if parent m \<noteq> None then vis(m := Visible) else vis)"

text \<open>
  \<open>meshes\<close> is the renderer's \<^verbatim>\<open>pointMeshes\<close>. \<^verbatim>\<open>frameCount % labelUpdateThrottle\<close> is
  \<^verbatim>\<open>NaN\<close> for a throttle of \<open>0\<close>, which is not \<open>0\<close>.
\<close>

definition throttled :: "nat \<Rightarrow> nat \<Rightarrow> bool \<Rightarrow> bool" where
  "throttled frameCount labelUpdateThrottle force =
     (\<not> force \<and> (labelUpdateThrottle = 0 \<or> frameCount mod labelUpdateThrottle \<noteq> 0))"

definition updateLabelVisibilities ::
    "LabelRenderer \<Rightarrow> mesh list \<Rightarrow> camera_view \<Rightarrow> mesh list \<Rightarrow> nat \<Rightarrow> nat \<Rightarrow> real \<Rightarrow> real \<Rightarrow> nat
       \<Rightarrow> bool \<Rightarrow> LabelRenderer" where
  "updateLabelVisibilities lr meshes view highlightedObjects frameCount labelUpdateThrottle
       labelSelectionConeDegrees labelSelectionConeHeight maxInViewLabels force =
     (if throttled frameCount labelUpdateThrottle force then lr
      else
        (let candidates = label_candidates meshes view highlightedObjects
                            labelSelectionConeDegrees labelSelectionConeHeight;
             sorted = sort_key snd candidates;
             inViewMeshes = new_Set (map fst (take maxInViewLabels sorted));
             highlightedObjectsNotOccluded =
               filter (\<lambda>m. \<not> isOccluded view m) highlightedObjects;
             newVisibleMeshes = new_Set (inViewMeshes @ highlightedObjectsNotOccluded);
             hidden = foldl (hide_step newVisibleMeshes) (labelVisibility lr)
                        (pointsWithVisibleLabels lr);
             shown = foldl show_step hidden newVisibleMeshes
         in \<lparr>pointsWithVisibleLabels = newVisibleMeshes, labelVisibility = shown\<rparr>))"

text \<open>An open view: everything is in the frustum, nothing is hit by an occlusion ray.\<close>

definition example_view :: camera_view where
  "example_view = \<lparr>cameraPos = (0, 0, 0), frustumContains = (\<lambda>p. True),
                   hullHit = (\<lambda>orig dir. None), coneApex = (- 1, 0, 0), coneAxis = (1, 0, 0)\<rparr>"

definition example_renderer :: LabelRenderer where
  "example_renderer = \<lparr>pointsWithVisibleLabels = [], labelVisibility = (\<lambda>m. Unset)\<rparr>"

section \<open>Properties of the cosine distance\<close>















section \<open>Properties of the spatial grid\<close>
















section \<open>Properties of the high-dimensional neighbour search\<close>

lemma map_of_record_distance:
  "map_of (record_distance nd i d) j =
     (if j = i then Some (case map_of nd i of None \<Rightarrow> d | Some e \<Rightarrow> min d e) else map_of nd j)"
  by (auto simp: record_distance_def update_conv' min_def split: option.splits)

lemma distinct_record_distance:
  "distinct (map fst nd) \<Longrightarrow> distinct (map fst (record_distance nd i d))"
  by (auto simp: record_distance_def distinct_update split: option.splits)

lemma map_of_fold_record:
  "map_of (foldl (\<lambda>nd (i, d). record_distance nd i d) nd es) j =
     (let ds = map snd (filter (\<lambda>e. fst e = j) es)
      in if ds = [] then map_of nd j
         else Some (case map_of nd j of None \<Rightarrow> Min (set ds) | Some e \<Rightarrow> min e (Min (set ds))))"
proof (induction es arbitrary: nd)
  case Nil
  then show ?case by simp
next
  case (Cons e es)
  obtain i d where e: "e = (i, d)" by (cases e)
  show ?case
  proof (cases "i = j")
    case False
    then show ?thesis by (simp add: Cons.IH e map_of_record_distance Let_def)
  next
    case True
    show ?thesis
    proof (cases "map snd (filter (\<lambda>e. fst e = j) es) = []")
      case True
      with \<open>i = j\<close> show ?thesis
        by (simp add: Cons.IH e map_of_record_distance Let_def min.commute split: option.splits)
    next
      case False
      have fin: "finite (snd ` {x \<in> set es. fst x = j})" by simp
      have ne: "snd ` {x \<in> set es. fst x = j} \<noteq> {}"
        using False by (auto simp: filter_empty_conv)
      from False \<open>i = j\<close> show ?thesis
        by (simp add: Cons.IH e map_of_record_distance Let_def Min_insert[OF fin ne]
            min.assoc min.commute min.left_commute split: option.splits)
    qed
  qed
qed


lemma foldl_visit_candidate:
  "foldl (visit_candidate same r p) nd ics =
     foldl (\<lambda>nd (i, d). record_distance nd i d) nd
       (map (\<lambda>ic. (fst ic, cosineDistance (comps p) (comps (snd ic))))
          (filter (\<lambda>ic. \<not> (same \<and> vref p = vref (snd ic))
                       \<and> cosineDistance (comps p) (comps (snd ic)) \<le> r) ics))"
  by (induction ics arbitrary: nd) (auto simp: visit_candidate_def Let_def)

lemma findHighDimensionalNeighbors_entries:
  "findHighDimensionalNeighbors same P A r =
     foldl (\<lambda>nd (i, d). record_distance nd i d) []
       (concat (map (\<lambda>p.
          map (\<lambda>ic. (fst ic, cosineDistance (comps p) (comps (snd ic))))
            (filter (\<lambda>ic. \<not> (same \<and> vref p = vref (snd ic))
                         \<and> cosineDistance (comps p) (comps (snd ic)) \<le> r) (enumerate 0 A))) P))"
proof -
  have "foldl (\<lambda>nd p. foldl (visit_candidate same r p) nd (enumerate 0 A)) nd P =
     foldl (\<lambda>nd (i, d). record_distance nd i d) nd
       (concat (map (\<lambda>p.
          map (\<lambda>ic. (fst ic, cosineDistance (comps p) (comps (snd ic))))
            (filter (\<lambda>ic. \<not> (same \<and> vref p = vref (snd ic))
                         \<and> cosineDistance (comps p) (comps (snd ic)) \<le> r) (enumerate 0 A))) P))" for nd
    by (induction P arbitrary: nd) (simp_all add: foldl_visit_candidate)
  then show ?thesis by (simp add: findHighDimensionalNeighbors_def)
qed

lemma filter_enumerate_index:
  "filter (\<lambda>ic. fst ic = j \<and> Q (snd ic)) (enumerate n A) =
     (if n \<le> j \<and> j < n + length A \<and> Q (A ! (j - n)) then [(j, A ! (j - n))] else [])"
proof (induction A arbitrary: n)
  case Nil
  then show ?case by simp
next
  case (Cons a A)
  show ?case
    by (auto simp: Cons.IH Suc_diff_le nth_Cons' )
qed


lemma Min_filter_le:
  fixes ds :: "real list"
  assumes "\<exists>d\<in>set ds. d \<le> r"
  shows "Min (set (filter (\<lambda>d. d \<le> r) ds)) = Min (set ds)"
proof -
  from assms obtain d where d: "d \<in> set ds" "d \<le> r" by blast
  let ?F = "set (filter (\<lambda>d. d \<le> r) ds)"
  have ne: "?F \<noteq> {}" using d by auto
  have "Min (set ds) \<le> d" using d by simp
  then have "Min (set ds) \<le> r" using d by linarith
  moreover have "Min (set ds) \<in> set ds" using d by (intro Min_in) auto
  ultimately have "Min (set ds) \<in> ?F" by simp
  then have "Min ?F \<le> Min (set ds)" by simp
  moreover have "Min (set ds) \<le> Min ?F"
    using ne by (intro Min_antimono) auto
  ultimately show ?thesis by simp
qed

lemma entries_for_index:
  "map snd (filter (\<lambda>e. fst e = j)
      (concat (map (\<lambda>p. map (\<lambda>ic. (fst ic, f p (snd ic)))
                            (filter (\<lambda>ic. Q p (snd ic)) (enumerate 0 A))) P)))
   = (if j < length A then map (\<lambda>p. f p (A ! j)) (filter (\<lambda>p. Q p (A ! j)) P) else [])"
proof (induction P)
  case Nil
  then show ?case by simp
next
  case (Cons p P)
  have "filter (\<lambda>e. fst e = j) (map (\<lambda>ic. (fst ic, f p (snd ic)))
            (filter (\<lambda>ic. Q p (snd ic)) (enumerate 0 A)))
        = map (\<lambda>ic. (fst ic, f p (snd ic)))
            (filter (\<lambda>ic. fst ic = j \<and> Q p (snd ic)) (enumerate 0 A))"
    by (auto simp: filter_map comp_def intro!: arg_cong[where f = "map _"] filter_cong)
  also have "\<dots> = (if j < length A \<and> Q p (A ! j) then [(j, f p (A ! j))] else [])"
    by (simp add: filter_enumerate_index)
  finally have one: "map snd (filter (\<lambda>e. fst e = j) (map (\<lambda>ic. (fst ic, f p (snd ic)))
            (filter (\<lambda>ic. Q p (snd ic)) (enumerate 0 A))))
        = (if j < length A \<and> Q p (A ! j) then [f p (A ! j)] else [])"
    by simp
  show ?case
    using Cons.IH by (simp add: one)
qed

lemma findHighDimensionalNeighbors_char:
  fixes sameArray primaryVectors allVectors neighborRadius
  defines "result \<equiv> findHighDimensionalNeighbors sameArray primaryVectors allVectors neighborRadius"
  shows "(\<forall>(i, d)\<in>set result. d \<le> neighborRadius \<and> i < length allVectors)
       \<and> distinct (map fst result)
       \<and> (\<forall>i<length allVectors.
            map_of result i =
              (let ds = compared_distances sameArray primaryVectors (allVectors ! i)
               in if \<exists>d\<in>set ds. d \<le> neighborRadius then Some (Min (set ds)) else None))"
proof -
  let ?f = "\<lambda>p c. cosineDistance (comps p) (comps c)"
  let ?Q = "\<lambda>p c. \<not> (sameArray \<and> vref p = vref c) \<and> ?f p c \<le> neighborRadius"
  let ?es = "concat (map (\<lambda>p. map (\<lambda>ic. (fst ic, ?f p (snd ic)))
                            (filter (\<lambda>ic. ?Q p (snd ic)) (enumerate 0 allVectors))) primaryVectors)"
  have res: "result = foldl (\<lambda>nd (i, d). record_distance nd i d) [] ?es"
    unfolding result_def by (rule findHighDimensionalNeighbors_entries)
  have ds: "map snd (filter (\<lambda>e. fst e = j) ?es)
      = (if j < length allVectors
         then filter (\<lambda>d. d \<le> neighborRadius)
                (compared_distances sameArray primaryVectors (allVectors ! j)) else [])" for j
  proof -
    have "map snd (filter (\<lambda>e. fst e = j) ?es)
      = (if j < length allVectors
         then map (\<lambda>p. ?f p (allVectors ! j)) (filter (\<lambda>p. ?Q p (allVectors ! j)) primaryVectors)
         else [])"
      by (rule entries_for_index)
    also have "map (\<lambda>p. ?f p (allVectors ! j)) (filter (\<lambda>p. ?Q p (allVectors ! j)) primaryVectors)
       = filter (\<lambda>d. d \<le> neighborRadius)
                (compared_distances sameArray primaryVectors (allVectors ! j))"
      by (simp add: compared_distances_def filter_map comp_def conj_commute)
    finally show ?thesis .
  qed
  have look: "map_of result j =
      (if j < length allVectors
       then (let ds = compared_distances sameArray primaryVectors (allVectors ! j)
             in if \<exists>d\<in>set ds. d \<le> neighborRadius then Some (Min (set ds)) else None)
       else None)" for j
  proof (cases "j < length allVectors")
    case False
    then show ?thesis unfolding res map_of_fold_record Let_def ds by simp
  next
    case True
    let ?ds = "compared_distances sameArray primaryVectors (allVectors ! j)"
    show ?thesis
    proof (cases "\<exists>d\<in>set ?ds. d \<le> neighborRadius")
      case ex: True
      then have "filter (\<lambda>d. d \<le> neighborRadius) ?ds \<noteq> []"
        by (auto simp: filter_empty_conv)
      then show ?thesis
        unfolding res map_of_fold_record Let_def ds using True ex Min_filter_le[OF ex]
        by simp
    next
      case nex: False
      then have "filter (\<lambda>d. d \<le> neighborRadius) ?ds = []"
        by (auto simp: filter_empty_conv)
      then show ?thesis
        unfolding res map_of_fold_record Let_def ds using True nex by simp
    qed
  qed
  have dist: "distinct (map fst result)"
  proof -
    have "distinct (map fst nd) \<Longrightarrow> distinct (map fst (foldl (\<lambda>nd (i, d). record_distance nd i d) nd es))"
      for nd es
      by (induction es arbitrary: nd) (auto simp: distinct_record_distance)
    then show ?thesis unfolding res by simp
  qed
  have bound: "\<forall>(i, d)\<in>set result. d \<le> neighborRadius \<and> i < length allVectors"
  proof (clarify)
    fix i d assume "(i, d) \<in> set result"
    with dist have m: "map_of result i = Some d" by simp
    then have i: "i < length allVectors" using look[of i] by (simp split: if_splits)
    let ?ds = "compared_distances sameArray primaryVectors (allVectors ! i)"
    from m i look[of i] have ex: "\<exists>d\<in>set ?ds. d \<le> neighborRadius" and d: "d = Min (set ?ds)"
      by (auto simp: Let_def split: if_splits)
    from ex obtain d' where "d' \<in> set ?ds" "d' \<le> neighborRadius" by blast
    then have "Min (set ?ds) \<le> d'" by simp
    with \<open>d' \<le> neighborRadius\<close> d i show "d \<le> neighborRadius \<and> i < length allVectors" by simp
  qed
  from bound dist look show ?thesis by simp
qed


lemma findHighDimensionalNeighbors_entries_valid:
  assumes "(i, d) \<in> set (findHighDimensionalNeighbors same P A r)"
  shows "d \<le> r \<and> i < length A"
  using findHighDimensionalNeighbors_char[of same P A r] assms by blast

text \<open>
  Claim C4. For every list of primary vectors, every candidate list and every radius, the
  map returned by \<open>findHighDimensionalNeighbors\<close> reports only distances that are at most
  the radius (at indices of the candidate list, each index once); the value at a candidate
  index is the minimum cosine distance from the compared primary vectors to that candidate,
  present exactly when one of these distances is within the radius; and a primary vector is
  left out of the comparison only when both arguments are the same array and the candidate
  is that very vector object (see \<open>compared_distances\<close>).
\<close>

theorem findHighDimensionalNeighbors_min:
  fixes sameArray primaryVectors allVectors neighborRadius
  defines "result \<equiv> findHighDimensionalNeighbors sameArray primaryVectors allVectors neighborRadius"
  shows "(\<forall>(i, d)\<in>set result. d \<le> neighborRadius \<and> i < length allVectors)
       \<and> distinct (map fst result)
       \<and> (\<forall>i<length allVectors.
            map_of result i =
              (let ds = compared_distances sameArray primaryVectors (allVectors ! i)
               in if \<exists>d\<in>set ds. d \<le> neighborRadius then Some (Min (set ds)) else None))"
  unfolding result_def by (rule findHighDimensionalNeighbors_char)

lemma cosineDistance_examples:
  "cosineDistance [1, 0] [1, 0] = 0" "cosineDistance [1, 0] [0, 1] = 1"
  "cosineDistance [0, 1] [1, 0] = 1" "cosineDistance [0, 1] [0, 1] = 0"
  by (simp_all add: cosineDistance_def magnitude_def dotProduct_def)

lemma findHighDimensionalNeighbors_examples:
  "findHighDimensionalNeighbors False [vector mesh_jazz] [vector mesh_jazz, vector mesh_rock] (1 / 2)
     = [(0, 0)]"
  "findHighDimensionalNeighbors True [vector mesh_jazz, vector mesh_rock]
       [vector mesh_jazz, vector mesh_rock] 1 = [(1, 1), (0, 1)]"
  by (simp_all add: findHighDimensionalNeighbors_def visit_candidate_def record_distance_def
      mesh_jazz_def mesh_rock_def cosineDistance_examples)

theorem findHighDimensionalNeighbors_min_witness:
  "findHighDimensionalNeighbors False [vector mesh_jazz]
     [vector mesh_jazz, vector mesh_rock] (1 / 2) = [(0, 0)]
   \<and> map_of (findHighDimensionalNeighbors False [vector mesh_jazz]
                [vector mesh_jazz, vector mesh_rock] (1 / 2)) 0 = Some 0
   \<and> map_of (findHighDimensionalNeighbors False [vector mesh_jazz]
                [vector mesh_jazz, vector mesh_rock] (1 / 2)) 1 = None"
proof -
  let ?A = "[vector mesh_jazz, vector mesh_rock]"
  let ?R = "findHighDimensionalNeighbors False [vector mesh_jazz] ?A (1 / 2)"
  note inst = findHighDimensionalNeighbors_min [of False "[vector mesh_jazz]" ?A "1 / 2"]
  from inst have look: "\<forall>i<length ?A. map_of ?R i =
      (let ds = compared_distances False [vector mesh_jazz] (?A ! i)
       in if \<exists>d\<in>set ds. d \<le> 1 / 2 then Some (Min (set ds)) else None)" by blast
  have "map_of ?R 0 = Some 0"
    using look[rule_format, of 0]
    by (simp add: compared_distances_def mesh_jazz_def mesh_rock_def cosineDistance_examples)
  moreover have "map_of ?R 1 = None"
    using look[rule_format, of 1]
    by (simp add: compared_distances_def mesh_jazz_def mesh_rock_def cosineDistance_examples)
  ultimately show ?thesis
    using findHighDimensionalNeighbors_examples(1) by simp
qed

section \<open>The example click\<close>

lemma sqrt_9: "sqrt 9 = 3"
  using real_sqrt_abs[of 3] by simp

lemma example_selection:
  "select_near_ray \<lparr>origin = (3, 0, 1), direction = (0, 0, - 1)\<rparr> 4 example_cloud
     = ([mesh_jazz, mesh_rock], [(''jazz'', 1 / 4), (''rock'', 1)])"
  by (simp add: select_near_ray_def near_ray_step_def example_cloud_def mesh_jazz_def mesh_rock_def
      mesh_folk_def distanceSqToPoint_def distanceToSquared_def lengthSq_def dot3_def sub3_def
      add3_def scale3_def normalizedWeight_def sqrt_9 Let_def)

lemma example_neighbors:
  "findHighDimensionalNeighbors False [vector mesh_jazz, vector mesh_rock]
     [vector mesh_jazz, vector mesh_rock, vector mesh_folk] 1 = [(0, 0), (1, 0), (2, 0)]"
  by (simp add: findHighDimensionalNeighbors_def visit_candidate_def record_distance_def
      mesh_jazz_def mesh_rock_def mesh_folk_def cosineDistance_examples)

lemma example_clicked_value:
  "example_clicked =
     \<lparr>manualSelectionState =
        Some \<lparr>primaryMeshes = [mesh_jazz, mesh_rock],
              selectionWeights = [(''jazz'', 1 / 4), (''rock'', 1), (''folk'', 1)],
              directlyClickedMesh = Some mesh_rock,
              neighborDistances = [(0, 0), (1, 0), (2, 0)]\<rparr>,
      proximityMeshes = [], proximityWeights = [], options = example_options\<rparr>"
proof -
  have ray: "search_ray [PointMeshObject mesh_rock] \<lparr>origin = (3, 0, 1), direction = (0, 0, - 1)\<rparr> (3, 0, 1)
      = Some \<lparr>origin = (3, 0, 1), direction = (0, 0, - 1)\<rparr>"
    by (simp add: search_ray_def mesh_rock_def normalize3_def sub3_def lengthSq_def dot3_def scale3_def)
  have fill: "addNeighborsToWeights example_options (Some example_cloud) [(0, 0), (Suc 0, 0), (2, 0)]
        [(''jazz'', 1 / 4), (''rock'', 1)] = [(''jazz'', 1 / 4), (''rock'', 1), (''folk'', 1)]"
    by (simp add: addNeighborsToWeights_def neighbor_fill_step_def example_options_def
        example_cloud_def mesh_jazz_def mesh_rock_def mesh_folk_def normalizedWeight_def)
  have o: "threeDClickRadius example_options = 4" "neighborRadius example_options = 1"
      "includeHighDimensionalNeighbors example_options"
    by (simp_all add: example_options_def)
  have v: "map vector example_cloud = [vector mesh_jazz, vector mesh_rock, vector mesh_folk]"
      "map vector [mesh_jazz, mesh_rock] = [vector mesh_jazz, vector mesh_rock]"
    by (simp_all add: example_cloud_def)
  show ?thesis
    unfolding example_clicked_def selectByClick_def
    by (simp add: ray initialPointSelector_def o example_selection Let_def clicked_mesh_def
        v example_neighbors fill)
qed

section \<open>Properties of the weight combination\<close>

lemma map_of_merge_manual_step:
  "map_of (merge_manual_step W cw k) l =
     (if l = k
      then (case map_of W k of
              None \<Rightarrow> map_of cw k
            | Some m \<Rightarrow> Some (case map_of cw k of None \<Rightarrow> m | Some a \<Rightarrow> max a m))
      else map_of cw l)"
  by (auto simp: merge_manual_step_def update_conv' max_def split: option.splits)

lemma map_of_merge_manual:
  "map_of (foldl (merge_manual_step W) cw keys) l =
     (if l \<in> set keys
      then (case map_of W l of
              None \<Rightarrow> map_of cw l
            | Some m \<Rightarrow> Some (case map_of cw l of None \<Rightarrow> m | Some a \<Rightarrow> max a m))
      else map_of cw l)"
proof (induction keys arbitrary: cw)
  case Nil
  then show ?case by simp
next
  case (Cons k keys)
  show ?case
    by (auto simp: Cons.IH map_of_merge_manual_step split: option.splits)
qed

lemma map_of_neighbor_fill_step:
  "map_of (neighbor_fill_step opts ms w e) l =
     (case map_of w l of
        Some a \<Rightarrow> Some a
      | None \<Rightarrow> if fst e < length ms \<and> label (ms ! fst e) = l
                then Some (normalizedWeight (snd e) (neighborRadius opts)) else None)"
  by (cases e) (auto simp: neighbor_fill_step_def update_conv' split: option.splits)

lemma map_of_neighbor_fill:
  "map_of (foldl (neighbor_fill_step opts ms) w nd) l =
     (case map_of w l of
        Some a \<Rightarrow> Some a
      | None \<Rightarrow> map_option (\<lambda>e. normalizedWeight (snd e) (neighborRadius opts))
                 (find (\<lambda>e. fst e < length ms \<and> label (ms ! fst e) = l) nd))"
proof (induction nd arbitrary: w)
  case Nil
  then show ?case by (simp split: option.splits)
next
  case (Cons e nd)
  show ?case
    by (simp add: Cons.IH map_of_neighbor_fill_step split: option.splits)
qed

lemma getCombinedWeights_lookup:
  "map_of (getCombinedWeights ps pointCloud) lbl =
     gap_fill_combined (map_of (proximityWeights ps) lbl) (storedWeight ps lbl)
       (neighborWeight ps pointCloud lbl)"
proof (cases "manualSelectionState ps")
  case None
  then show ?thesis
    by (simp add: getCombinedWeights_def storedWeight_def neighborWeight_def gap_fill_combined_def
        split: option.splits)
next
  case (Some st)
  have keys: "lbl \<in> set (map fst (selectionWeights st)) \<longleftrightarrow> map_of (selectionWeights st) lbl \<noteq> None"
    by (simp add: map_of_eq_None_iff)
  let ?merged = "foldl (merge_manual_step (selectionWeights st)) (proximityWeights ps)
                   (map fst (selectionWeights st))"
  have merged: "map_of ?merged lbl =
      gap_fill_combined (map_of (proximityWeights ps) lbl) (map_of (selectionWeights st) lbl) None"
    unfolding map_of_merge_manual keys
    by (auto simp: gap_fill_combined_def split: option.splits)
  show ?thesis
  proof (cases "includeHighDimensionalNeighbors (options ps)")
    case False
    then show ?thesis
      using merged Some
      by (simp add: getCombinedWeights_def storedWeight_def neighborWeight_def Let_def
          split: option.splits)
  next
    case True
    show ?thesis
    proof (cases pointCloud)
      case None
      then show ?thesis
        using merged Some True
        by (simp add: getCombinedWeights_def storedWeight_def neighborWeight_def Let_def
            addNeighborsToWeights_def)
    next
      case (Some ms)
      then show ?thesis
        using merged \<open>manualSelectionState ps = Some st\<close> True
        by (auto simp: getCombinedWeights_def storedWeight_def neighborWeight_def Let_def
            addNeighborsToWeights_def map_of_neighbor_fill gap_fill_combined_def
            split: option.splits)
    qed
  qed
qed

lemma snd_near_ray_step:
  "map_of (snd (near_ray_step searchRay radius acc m)) l =
     (case primary_entry searchRay radius m of
        None \<Rightarrow> map_of (snd acc) l
      | Some e \<Rightarrow> if l = fst e then Some (snd e) else map_of (snd acc) l)"
  by (simp add: near_ray_step_def primary_entry_def Let_def update_conv' split: option.splits)

lemma map_of_near_ray_fold:
  "map_of (snd (foldl (near_ray_step searchRay radius) acc ms)) l =
     (case map_of (rev (primary_entries searchRay radius ms)) l of
        Some w \<Rightarrow> Some w
      | None \<Rightarrow> map_of (snd acc) l)"
proof (induction ms arbitrary: acc)
  case Nil
  then show ?case by (simp add: primary_entries_def List.map_filter_simps)
next
  case (Cons m ms)
  have "map_of (snd (foldl (near_ray_step searchRay radius) acc (m # ms))) l =
      (case map_of (rev (primary_entries searchRay radius ms)) l of
        Some w \<Rightarrow> Some w
      | None \<Rightarrow> map_of (snd (near_ray_step searchRay radius acc m)) l)"
    by (simp only: foldl_Cons Cons.IH)
  also have "\<dots> = (case map_of (rev (primary_entries searchRay radius (m # ms))) l of
        Some w \<Rightarrow> Some w
      | None \<Rightarrow> map_of (snd acc) l)"
    by (cases "primary_entry searchRay radius m")
       (auto simp: snd_near_ray_step primary_entries_def List.map_filter_simps map_add_def
          split: option.splits)
  finally show ?case .
qed

lemma map_of_select_near_ray:
  "map_of (snd (select_near_ray searchRay radius ms)) l =
     map_of (rev (primary_entries searchRay radius ms)) l"
  unfolding select_near_ray_def map_of_near_ray_fold by (simp split: option.splits)

lemma stored_after_click:
  assumes st: "manualSelectionState (selectByClick ps (Some ms) ints clickedRay cam) = Some st"
  shows "storedWeight (selectByClick ps (Some ms) ints clickedRay cam) lbl =
           (case manualPrimaryWeight ps ms ints clickedRay cam lbl of
              Some w \<Rightarrow> Some w
            | None \<Rightarrow> neighborWeight (selectByClick ps (Some ms) ints clickedRay cam) (Some ms) lbl)"
proof -
  let ?ps1 = "selectByClick ps (Some ms) ints clickedRay cam"
  let ?sel = "case search_ray ints clickedRay cam of None \<Rightarrow> ([], [])
              | Some searchRay \<Rightarrow> select_near_ray searchRay (threeDClickRadius (options ps)) ms"
  have prim: "map_of (snd ?sel) lbl = manualPrimaryWeight ps ms ints clickedRay cam lbl"
    by (simp add: manualPrimaryWeight_def map_of_select_near_ray split: option.splits)
  have o: "options ?ps1 = options ps"
    by (simp add: selectByClick_def Let_def split: option.splits)
  show ?thesis
  proof (cases "includeHighDimensionalNeighbors (options ps)")
    case True
    with st have w: "selectionWeights st =
        addNeighborsToWeights (options ps) (Some ms) (neighborDistances st) (snd ?sel)"
      by (auto simp: selectByClick_def Let_def split: if_splits)
    show ?thesis
      using True prim
      by (simp add: storedWeight_def neighborWeight_def st o w addNeighborsToWeights_def
          map_of_neighbor_fill split: option.splits)
  next
    case False
    with st have w: "selectionWeights st = snd ?sel"
      by (auto simp: selectByClick_def Let_def split: if_splits)
    show ?thesis
      using False prim
      by (simp add: storedWeight_def neighborWeight_def st o w split: option.splits)
  qed
qed

lemma example_near_folk_value:
  "example_near_folk
     = example_clicked\<lparr>proximityMeshes := [mesh_folk], proximityWeights := [(''folk'', 1 / 2)]\<rparr>"
proof -
  have q: "query (build example_cloud) (0, 19, 0) 2 = [mesh_folk]"
    unfolding example_cloud_def by code_simp
  show ?thesis
    unfolding example_near_folk_def
    by (simp add: updateProximitySelection_def example_clicked_value example_options_def q Let_def
        mesh_folk_def distanceToSquared_def sub3_def lengthSq_def dot3_def normalizedWeight_def)
qed

lemma example_search_ray:
  "search_ray [PointMeshObject mesh_rock] \<lparr>origin = (3, 0, 1), direction = (0, 0, - 1)\<rparr> (3, 0, 1)
      = Some \<lparr>origin = (3, 0, 1), direction = (0, 0, - 1)\<rparr>"
  by (simp add: search_ray_def mesh_rock_def normalize3_def sub3_def lengthSq_def dot3_def scale3_def)

lemma example_primary_entries:
  "primary_entries \<lparr>origin = (3, 0, 1), direction = (0, 0, - 1)\<rparr> 4 example_cloud
     = [(''jazz'', 1 / 4), (''rock'', 1)]"
  by (simp add: primary_entries_def primary_entry_def List.map_filter_simps example_cloud_def
      mesh_jazz_def mesh_rock_def mesh_folk_def distanceSqToPoint_def sub3_def dot3_def add3_def
      scale3_def distanceToSquared_def lengthSq_def normalizedWeight_def sqrt_9 Let_def)

lemma example_manual_primary:
  "manualPrimaryWeight (initialPointSelector example_options) example_cloud
     [PointMeshObject mesh_rock] \<lparr>origin = (3, 0, 1), direction = (0, 0, - 1)\<rparr> (3, 0, 1) lbl
     = map_of [(''rock'', 1), (''jazz'', 1 / 4)] lbl"
  by (simp add: manualPrimaryWeight_def example_search_ray initialPointSelector_def
      example_options_def example_primary_entries)

lemma example_neighbor_weight:
  "neighborWeight example_clicked (Some example_cloud) ''folk'' = Some 1"
  "neighborWeight example_near_folk (Some example_cloud) ''folk'' = Some 1"
  "neighborWeight example_near_folk (Some example_cloud) ''punk'' = None"
  by (simp_all add: neighborWeight_def example_near_folk_value example_clicked_value
      example_options_def example_cloud_def mesh_jazz_def mesh_rock_def mesh_folk_def
      normalizedWeight_def)

lemma example_stored_weight:
  "storedWeight example_near_folk lbl = map_of [(''jazz'', 1 / 4), (''rock'', 1), (''folk'', 1)] lbl"
  "storedWeight example_clicked lbl = map_of [(''jazz'', 1 / 4), (''rock'', 1), (''folk'', 1)] lbl"
  "map_of (proximityWeights example_near_folk) lbl = map_of [(''folk'', 1 / 2)] lbl"
  "neighborRadius (options example_near_folk) = 1"
  "neighborRadius (options (initialPointSelector example_options)) = 1"
  "manualSelectionState example_clicked \<noteq> None"
  by (simp_all add: storedWeight_def example_near_folk_value example_clicked_value
      example_options_def initialPointSelector_def)

text \<open>
  Claim C1, as amended. For every label that is not the name of a property of
  \<^verbatim>\<open>Object.prototype\<close>, and a neighbour radius other than \<open>0\<close> (so that every weight is a
  number): the map returned by \<open>getCombinedWeights\<close> holds the maximum of the proximity
  weight and the stored selection weight when both mention the label, the one that mentions
  it when only one does, and, when neither does, the neighbour-derived weight computed at
  read time, if neighbour inclusion is enabled, a point cloud exists and the neighbour map
  reaches a mesh with that label; a label mentioned by no source is absent. After a click
  that leaves a manual selection, the stored selection weight of a label is the manual
  weight of the primary mesh carrying it and, for a label that no primary mesh carries, the
  neighbour-derived weight that the click folds in. So a neighbour-derived weight never
  replaces a manual primary weight, and one computed at read time only fills labels missing
  from the map; one folded in at click time, however, takes part in the maximum and
  replaces a smaller proximity weight.
\<close>

theorem getCombinedWeights_stored_max:
  assumes "lbl \<notin> set object_prototype_keys" and "neighborRadius (options ps) \<noteq> 0"
  shows "map_of (getCombinedWeights ps pointCloud) lbl =
           gap_fill_combined (map_of (proximityWeights ps) lbl) (storedWeight ps lbl)
             (neighborWeight ps pointCloud lbl)
       \<and> (manualSelectionState (selectByClick ps (Some pointMeshes) intersects clickedRay cameraPosition)
             \<noteq> None \<longrightarrow>
           storedWeight (selectByClick ps (Some pointMeshes) intersects clickedRay cameraPosition) lbl =
             (case manualPrimaryWeight ps pointMeshes intersects clickedRay cameraPosition lbl of
                Some w \<Rightarrow> Some w
              | None \<Rightarrow>
                  neighborWeight
                    (selectByClick ps (Some pointMeshes) intersects clickedRay cameraPosition)
                    (Some pointMeshes) lbl))"
  using getCombinedWeights_lookup stored_after_click by blast

theorem getCombinedWeights_stored_max_witness:
  "map_of (getCombinedWeights example_near_folk (Some example_cloud)) ''folk'' = Some 1
   \<and> map_of (proximityWeights example_near_folk) ''folk'' = Some (1 / 2)
   \<and> map_of (getCombinedWeights example_near_folk (Some example_cloud)) ''jazz'' = Some (1 / 4)
   \<and> map_of (getCombinedWeights example_near_folk (Some example_cloud)) ''punk'' = None
   \<and> storedWeight example_clicked ''folk'' = Some 1
   \<and> manualPrimaryWeight (initialPointSelector example_options) example_cloud
        [PointMeshObject mesh_rock] \<lparr>origin = (3, 0, 1), direction = (0, 0, - 1)\<rparr> (3, 0, 1)
        ''folk'' = None
   \<and> neighborWeight example_clicked (Some example_cloud) ''folk'' = Some 1
   \<and> storedWeight example_clicked ''jazz'' = Some (1 / 4)
   \<and> manualPrimaryWeight (initialPointSelector example_options) example_cloud
        [PointMeshObject mesh_rock] \<lparr>origin = (3, 0, 1), direction = (0, 0, - 1)\<rparr> (3, 0, 1)
        ''jazz'' = Some (1 / 4)"
  using getCombinedWeights_stored_max [THEN conjunct1,
          of "''folk''" example_near_folk "Some example_cloud"]
        getCombinedWeights_stored_max [THEN conjunct1,
          of "''jazz''" example_near_folk "Some example_cloud"]
        getCombinedWeights_stored_max [THEN conjunct1,
          of "''punk''" example_near_folk "Some example_cloud"]
        getCombinedWeights_stored_max [THEN conjunct2,
          of "''folk''" "initialPointSelector example_options" example_cloud
             "[PointMeshObject mesh_rock]" "\<lparr>origin = (3, 0, 1), direction = (0, 0, - 1)\<rparr>"
             "(3, 0, 1)", folded example_clicked_def]
        getCombinedWeights_stored_max [THEN conjunct2,
          of "''jazz''" "initialPointSelector example_options" example_cloud
             "[PointMeshObject mesh_rock]" "\<lparr>origin = (3, 0, 1), direction = (0, 0, - 1)\<rparr>"
             "(3, 0, 1)", folded example_clicked_def]
  by (simp add: object_prototype_keys_def gap_fill_combined_def example_stored_weight
      example_neighbor_weight example_manual_primary)

text \<open>
  Claim C1, as stated (the combined weight is exactly the maximum of the proximity, manual
  and neighbour-derived weights), fails after a single click: the mesh labelled jazz is a
  primary mesh with manual weight \<open>1/4\<close>, its own vector puts it in the neighbour map at
  distance \<open>0\<close> (neighbour-derived weight \<open>1\<close>), and the combined weight stays \<open>1/4\<close>.
\<close>

theorem getCombinedWeights_max_counterexample:
  "map_of (getCombinedWeights example_clicked (Some example_cloud)) ''jazz''
     \<noteq> spec_combined (map_of (proximityWeights example_clicked) ''jazz'')
           (storedWeight example_clicked ''jazz'')
           (neighborWeight example_clicked (Some example_cloud) ''jazz'')"
proof -
  have "map_of (getCombinedWeights example_clicked (Some example_cloud)) ''jazz'' = Some (1 / 4)"
    by (simp add: example_clicked_value getCombinedWeights_def merge_manual_step_def
        addNeighborsToWeights_def neighbor_fill_step_def example_options_def example_cloud_def
        mesh_jazz_def mesh_rock_def mesh_folk_def)
  moreover have "spec_combined (map_of (proximityWeights example_clicked) ''jazz'')
           (storedWeight example_clicked ''jazz'')
           (neighborWeight example_clicked (Some example_cloud) ''jazz'') = Some 1"
    by (simp add: example_clicked_value spec_combined_def storedWeight_def neighborWeight_def
        example_options_def example_cloud_def mesh_jazz_def mesh_rock_def mesh_folk_def
        normalizedWeight_def)
  ultimately show ?thesis by simp
qed

section \<open>Frame of the neighbour recalculation\<close>

lemma recalculateNeighbors_frame:
  "map_option (\<lambda>st. (primaryMeshes st, directlyClickedMesh st, selectionWeights st))
       (manualSelectionState (recalculateNeighbors ps pointCloud))
     = map_option (\<lambda>st. (primaryMeshes st, directlyClickedMesh st, selectionWeights st))
         (manualSelectionState ps)
   \<and> proximityMeshes (recalculateNeighbors ps pointCloud) = proximityMeshes ps
   \<and> proximityWeights (recalculateNeighbors ps pointCloud) = proximityWeights ps
   \<and> options (recalculateNeighbors ps pointCloud) = options ps"
  by (auto simp: recalculateNeighbors_def split: option.splits)

lemma recalculateNeighbors_disabled:
  assumes "\<not> includeHighDimensionalNeighbors (options ps)" "manualSelectionState ps = Some st"
  shows "recalculateNeighbors ps pointCloud
           = ps\<lparr>manualSelectionState := Some (st\<lparr>neighborDistances := []\<rparr>)\<rparr>"
  using assms by (simp add: recalculateNeighbors_def)

lemma fill_reaches_neighbors:
  assumes "(i, d) \<in> set nd" "i < length ms"
  shows "map_of (foldl (neighbor_fill_step opts ms) w nd) (label (ms ! i)) \<noteq> None"
proof -
  have "find (\<lambda>e. fst e < length ms \<and> label (ms ! fst e) = label (ms ! i)) nd \<noteq> None"
    using assms by (auto simp: find_None_iff)
  then show ?thesis
    by (auto simp: map_of_neighbor_fill split: option.splits)
qed

lemma click_folds_neighbors:
  assumes inc: "includeHighDimensionalNeighbors (options ps)"
    and st: "manualSelectionState (selectByClick ps (Some ms) ints clickedRay cam) = Some st"
    and e: "(i, d) \<in> set (neighborDistances st)"
  shows "i < length ms \<and> map_of (selectionWeights st) (label (ms ! i)) \<noteq> None"
proof -
  let ?sel = "case search_ray ints clickedRay cam of None \<Rightarrow> ([], [])
              | Some searchRay \<Rightarrow> select_near_ray searchRay (threeDClickRadius (options ps)) ms"
  let ?nd = "findHighDimensionalNeighbors False (map vector (fst ?sel)) (map vector ms)
               (neighborRadius (options ps))"
  from st inc have nd: "neighborDistances st = ?nd"
    and w: "selectionWeights st = addNeighborsToWeights (options ps) (Some ms) ?nd (snd ?sel)"
    by (auto simp: selectByClick_def Let_def split: if_splits)
  from e have "(i, d) \<in> set ?nd" by (simp add: nd)
  then have i: "i < length ms"
    using findHighDimensionalNeighbors_entries_valid by fastforce
  show ?thesis
    using i fill_reaches_neighbors[OF \<open>(i, d) \<in> set ?nd\<close> i] inc
    by (simp add: w addNeighborsToWeights_def)
qed


lemma selectByClick_options: "options (selectByClick ps pc ints clickedRay cam) = options ps"
  by (simp add: selectByClick_def Let_def split: option.splits)

lemma selectByClick_proximity:
  "proximityWeights (selectByClick ps pc ints clickedRay cam) = proximityWeights ps"
  by (simp add: selectByClick_def Let_def split: option.splits)

lemma combined_without_neighbors:
  assumes "\<not> includeHighDimensionalNeighbors (options ps)"
  shows "map_of (getCombinedWeights ps pc) l =
           gap_fill_combined (map_of (proximityWeights ps) l) (storedWeight ps l) None"
proof -
  have "neighborWeight ps pc l = None"
    using assms by (simp add: neighborWeight_def split: option.splits)
  then show ?thesis by (simp add: getCombinedWeights_lookup)
qed

text \<open>
  Claim C10. \<open>recalculateNeighbors\<close> changes nothing but the neighbour-distance map of the
  manual selection: the primary meshes, the directly clicked mesh and the stored selection
  weights are unchanged (as are the proximity selection and the options). After a click,
  switching neighbour inclusion off and recalculating empties only the neighbour-distance
  map; every stored weight entry still appears in the combined weights, and when the click
  was made with neighbour inclusion on, these entries include the label of every mesh in
  the neighbour-distance map, folded in at click time.
\<close>

theorem recalculateNeighbors_only_neighborDistances:
  fixes ps q :: PointSelector and pointCloud :: "point_cloud option"
    and ints :: "scene_object list" and clickedRay :: ray and cam :: vec3
  defines "ps1 \<equiv> selectByClick ps pointCloud ints clickedRay cam"
  defines "ps2 \<equiv> updateOptions ps1 ((options ps1)\<lparr>includeHighDimensionalNeighbors := False\<rparr>)"
  defines "ps3 \<equiv> recalculateNeighbors ps2 pointCloud"
  shows "map_option (\<lambda>st. (primaryMeshes st, directlyClickedMesh st, selectionWeights st))
             (manualSelectionState (recalculateNeighbors q pointCloud))
           = map_option (\<lambda>st. (primaryMeshes st, directlyClickedMesh st, selectionWeights st))
               (manualSelectionState q)
       \<and> proximityMeshes (recalculateNeighbors q pointCloud) = proximityMeshes q
       \<and> proximityWeights (recalculateNeighbors q pointCloud) = proximityWeights q
       \<and> options (recalculateNeighbors q pointCloud) = options q
       \<and> (\<forall>st1. manualSelectionState ps1 = Some st1 \<longrightarrow>
             manualSelectionState ps3 = Some (st1\<lparr>neighborDistances := []\<rparr>)
           \<and> (\<forall>l w. map_of (selectionWeights st1) l = Some w \<longrightarrow>
                 (\<exists>w'. map_of (getCombinedWeights ps3 pointCloud) l = Some w' \<and> w \<le> w'))
           \<and> (includeHighDimensionalNeighbors (options ps) \<longrightarrow>
                (\<forall>ms i d. pointCloud = Some ms \<longrightarrow> (i, d) \<in> set (neighborDistances st1) \<longrightarrow>
                   i < length ms
                 \<and> map_of (selectionWeights st1) (label (ms ! i)) \<noteq> None
                 \<and> map_of (getCombinedWeights ps3 pointCloud) (label (ms ! i)) \<noteq> None)))"
proof -
  have stored: "manualSelectionState ps3 = Some (st1\<lparr>neighborDistances := []\<rparr>)
       \<and> (\<forall>l w. map_of (selectionWeights st1) l = Some w \<longrightarrow>
                 (\<exists>w'. map_of (getCombinedWeights ps3 pointCloud) l = Some w' \<and> w \<le> w'))"
    if st1: "manualSelectionState ps1 = Some st1" for st1
  proof -
    have off: "\<not> includeHighDimensionalNeighbors (options ps2)"
      and st2: "manualSelectionState ps2 = Some st1"
      and prox2: "proximityWeights ps2 = proximityWeights ps1"
      using st1 by (simp_all add: ps2_def updateOptions_def)
    have ps3: "ps3 = ps2\<lparr>manualSelectionState := Some (st1\<lparr>neighborDistances := []\<rparr>)\<rparr>"
      unfolding ps3_def by (rule recalculateNeighbors_disabled[OF off st2])
    have off3: "\<not> includeHighDimensionalNeighbors (options ps3)" using off by (simp add: ps3)
    have mw: "storedWeight ps3 l = map_of (selectionWeights st1) l" for l
      by (simp add: ps3 storedWeight_def)
    have "\<exists>w'. map_of (getCombinedWeights ps3 pointCloud) l = Some w' \<and> w \<le> w'"
      if "map_of (selectionWeights st1) l = Some w" for l w
      using that by (auto simp: combined_without_neighbors[OF off3] mw gap_fill_combined_def
          split: option.splits)
    then show ?thesis by (simp add: ps3)
  qed
  have folded: "i < length ms
                 \<and> map_of (selectionWeights st1) (label (ms ! i)) \<noteq> None
                 \<and> map_of (getCombinedWeights ps3 pointCloud) (label (ms ! i)) \<noteq> None"
    if st1: "manualSelectionState ps1 = Some st1"
      and inc: "includeHighDimensionalNeighbors (options ps)"
      and pc: "pointCloud = Some ms" and e: "(i, d) \<in> set (neighborDistances st1)"
    for st1 ms i d
  proof -
    from click_folds_neighbors[OF inc st1[unfolded ps1_def pc] e]
    have i: "i < length ms" and w: "map_of (selectionWeights st1) (label (ms ! i)) \<noteq> None"
      by simp_all
    from w obtain x where "map_of (selectionWeights st1) (label (ms ! i)) = Some x" by blast
    with stored[OF st1] have "map_of (getCombinedWeights ps3 pointCloud) (label (ms ! i)) \<noteq> None"
      by fastforce
    with i w show ?thesis by simp
  qed
  show ?thesis
    using recalculateNeighbors_frame[of q pointCloud] stored folded by blast
qed


theorem recalculateNeighbors_only_neighborDistances_witness:
  "map_option neighborDistances
     (manualSelectionState
        (recalculateNeighbors
           (updateOptions example_clicked
              ((options example_clicked)\<lparr>includeHighDimensionalNeighbors := False\<rparr>))
           (Some example_cloud))) = Some []
   \<and> map_option selectionWeights
     (manualSelectionState
        (recalculateNeighbors
           (updateOptions example_clicked
              ((options example_clicked)\<lparr>includeHighDimensionalNeighbors := False\<rparr>))
           (Some example_cloud))) = Some [(''jazz'', 1 / 4), (''rock'', 1), (''folk'', 1)]
   \<and> map_of (getCombinedWeights
        (recalculateNeighbors
           (updateOptions example_clicked
              ((options example_clicked)\<lparr>includeHighDimensionalNeighbors := False\<rparr>))
           (Some example_cloud)) (Some example_cloud)) ''folk'' \<noteq> None"
proof -
  let ?st = "\<lparr>primaryMeshes = [mesh_jazz, mesh_rock],
              selectionWeights = [(''jazz'', 1 / 4), (''rock'', 1), (''folk'', 1)],
              directlyClickedMesh = Some mesh_rock,
              neighborDistances = [(0, 0), (1, 0), (2, 0)]\<rparr>"
  have st: "manualSelectionState example_clicked = Some ?st"
    by (simp add: example_clicked_value)
  have inc: "includeHighDimensionalNeighbors (options (initialPointSelector example_options))"
    by (simp add: initialPointSelector_def example_options_def)
  have e: "(2, 0) \<in> set (neighborDistances ?st)" by simp
  have l: "label (example_cloud ! 2) = ''folk''"
    by (simp add: example_cloud_def mesh_folk_def)
  note inst = recalculateNeighbors_only_neighborDistances
      [where ps = "initialPointSelector example_options" and pointCloud = "Some example_cloud"
         and ints = "[PointMeshObject mesh_rock]"
         and clickedRay = "\<lparr>origin = (3, 0, 1), direction = (0, 0, - 1)\<rparr>" and cam = "(3, 0, 1)"
         and q = example_clicked, folded example_clicked_def]
  from inst st inc e have
    "manualSelectionState
        (recalculateNeighbors
           (updateOptions example_clicked
              ((options example_clicked)\<lparr>includeHighDimensionalNeighbors := False\<rparr>))
           (Some example_cloud)) = Some (?st\<lparr>neighborDistances := []\<rparr>)"
    and "map_of (getCombinedWeights
        (recalculateNeighbors
           (updateOptions example_clicked
              ((options example_clicked)\<lparr>includeHighDimensionalNeighbors := False\<rparr>))
           (Some example_cloud)) (Some example_cloud)) (label (example_cloud ! 2)) \<noteq> None"
    by blast+
  then show ?thesis by (simp add: l)
qed

section \<open>Clearing the manual selection\<close>

lemma distanceToSquared_nonneg: "0 \<le> distanceToSquared a b"
  by (cases a; cases b) (simp add: distanceToSquared_def lengthSq_def dot3_def sub3_def)

lemma distanceSqToPoint_nonneg: "0 \<le> distanceSqToPoint r p"
  by (simp add: distanceSqToPoint_def Let_def distanceToSquared_nonneg)

lemma fst_foldl_near_ray:
  "fst (foldl (near_ray_step searchRay radius) acc ms) =
     fst acc @ filter (\<lambda>m. case parent m of None \<Rightarrow> False
                             | Some q \<Rightarrow> distanceSqToPoint searchRay q < radius * radius) ms"
  by (induction ms arbitrary: acc) (auto simp: near_ray_step_def Let_def split: option.splits)

lemma fst_select_near_ray:
  "fst (select_near_ray searchRay radius ms) =
     filter (\<lambda>m. case parent m of None \<Rightarrow> False
                 | Some q \<Rightarrow> distanceSqToPoint searchRay q < radius * radius) ms"
  by (simp add: select_near_ray_def fst_foldl_near_ray)

lemma radius_test:
  assumes "0 \<le> r" "0 \<le> d"
  shows "sqrt d < r \<longleftrightarrow> d < r * r"
proof -
  have "sqrt d < r \<longleftrightarrow> sqrt d < sqrt (r * r)" using assms by simp
  also have "\<dots> \<longleftrightarrow> d < r * r" by (rule real_sqrt_less_iff)
  finally show ?thesis .
qed

lemma radius_test_le:
  assumes "0 \<le> r" "0 \<le> d"
  shows "r \<le> sqrt d \<longleftrightarrow> r * r \<le> d"
  using radius_test[OF assms] by (simp add: not_less[symmetric])

lemma selectByClick_cleared_iff:
  assumes "0 \<le> threeDClickRadius (options ps)"
  shows "manualSelectionState (selectByClick ps (Some ms) ints clickedRay cam) = None
           \<longleftrightarrow> no_item_within_radius ps (Some ms) ints clickedRay cam"
proof -
  let ?r = "threeDClickRadius (options ps)"
  let ?sel = "case search_ray ints clickedRay cam of None \<Rightarrow> ([], [])
              | Some searchRay \<Rightarrow> select_near_ray searchRay ?r ms"
  have "manualSelectionState (selectByClick ps (Some ms) ints clickedRay cam) = None
          \<longleftrightarrow> fst ?sel = []"
    by (simp add: selectByClick_def Let_def)
  also have "\<dots> \<longleftrightarrow> no_item_within_radius ps (Some ms) ints clickedRay cam"
    by (auto simp: no_item_within_radius_def fst_select_near_ray filter_empty_conv list_all_iff
        radius_test[OF assms distanceSqToPoint_nonneg] split: option.splits)
  finally show ?thesis .
qed

text \<open>
  Claim C8, as amended. For a click radius that is not negative and every call of
  \<open>selectByClick\<close> made while a point cloud exists: if no mesh falls within the click radius
  of the search ray (whether a mesh was hit directly or not), the manual selection is
  cleared, the stored state becomes none and \<open>hasManualSelection\<close> is false, whatever the
  selection was before; and if some mesh falls within the radius, a manual selection is
  stored. A call made while there is no point cloud returns at once and leaves the selector
  as it was.
\<close>

theorem selectByClick_clears_selection:
  assumes "0 \<le> threeDClickRadius (options ps)"
  shows "(no_item_within_radius ps (Some pointMeshes) intersects clickedRay cameraPosition \<longrightarrow>
            manualSelectionState
              (selectByClick ps (Some pointMeshes) intersects clickedRay cameraPosition) = None
          \<and> \<not> hasManualSelection
              (selectByClick ps (Some pointMeshes) intersects clickedRay cameraPosition))
       \<and> (\<not> no_item_within_radius ps (Some pointMeshes) intersects clickedRay cameraPosition \<longrightarrow>
            hasManualSelection
              (selectByClick ps (Some pointMeshes) intersects clickedRay cameraPosition))
       \<and> selectByClick ps None intersects clickedRay cameraPosition = ps"
  using selectByClick_cleared_iff[OF assms, of pointMeshes intersects clickedRay cameraPosition]
  by (simp add: hasManualSelection_def) (simp add: selectByClick_def)

lemma no_item_within_radius_squared:
  assumes "0 \<le> threeDClickRadius (options ps)"
  shows "no_item_within_radius ps pointCloud ints clickedRay cam =
     (case search_ray ints clickedRay cam of
        None \<Rightarrow> True
      | Some searchRay \<Rightarrow>
          list_all (\<lambda>m. case parent m of
                           None \<Rightarrow> True
                         | Some q \<Rightarrow> \<not> distanceSqToPoint searchRay q
                                        < threeDClickRadius (options ps) * threeDClickRadius (options ps))
                   (case pointCloud of None \<Rightarrow> [] | Some pointMeshes \<Rightarrow> pointMeshes))"
  by (auto simp: no_item_within_radius_def list_all_iff
      radius_test[OF assms distanceSqToPoint_nonneg] split: option.splits)

lemma example_far_click:
  "no_item_within_radius example_clicked (Some example_cloud) []
      \<lparr>origin = (0, 0, 50), direction = (0, 0, 1)\<rparr> (0, 0, 50)"
proof -
  have "0 \<le> threeDClickRadius (options example_clicked)"
    by (simp add: example_clicked_value example_options_def)
  then show ?thesis
    by (simp add: no_item_within_radius_squared search_ray_def example_clicked_value
        example_options_def example_cloud_def mesh_jazz_def mesh_rock_def mesh_folk_def
        distanceSqToPoint_def distanceToSquared_def lengthSq_def dot3_def sub3_def add3_def
        scale3_def)
qed

theorem selectByClick_clears_selection_witness:
  "0 \<le> threeDClickRadius (options example_clicked)
   \<and> no_item_within_radius example_clicked (Some example_cloud) []
      \<lparr>origin = (0, 0, 50), direction = (0, 0, 1)\<rparr> (0, 0, 50)
   \<and> hasManualSelection example_clicked
   \<and> \<not> hasManualSelection
        (selectByClick example_clicked (Some example_cloud) []
           \<lparr>origin = (0, 0, 50), direction = (0, 0, 1)\<rparr> (0, 0, 50))"
proof -
  have r: "0 \<le> threeDClickRadius (options example_clicked)"
    by (simp add: example_clicked_value example_options_def)
  moreover have "hasManualSelection example_clicked"
    by (simp add: hasManualSelection_def example_clicked_value)
  ultimately show ?thesis
    using selectByClick_clears_selection [OF r, of example_cloud "[]"
        "\<lparr>origin = (0, 0, 50), direction = (0, 0, 1)\<rparr>" "(0, 0, 50)"] example_far_click
    by simp
qed

text \<open>
  Claim C8, as stated for every call, fails when there is no point cloud: no mesh is within
  the radius, and the manual selection made before is still there. It also fails for a
  negative click radius, which the settings accept: no distance is below it, and the
  squared comparison of the code still selects the meshes whose distance is below its
  absolute value.
\<close>

theorem selectByClick_without_cloud_counterexample:
  "no_item_within_radius example_clicked None [] \<lparr>origin = (0, 0, 50), direction = (0, 0, 1)\<rparr> (0, 0, 50)
   \<and> hasManualSelection
        (selectByClick example_clicked None [] \<lparr>origin = (0, 0, 50), direction = (0, 0, 1)\<rparr>
           (0, 0, 50))
   \<and> no_item_within_radius
        (initialPointSelector (example_options\<lparr>threeDClickRadius := - 4\<rparr>)) (Some example_cloud)
        [PointMeshObject mesh_rock] \<lparr>origin = (3, 0, 1), direction = (0, 0, - 1)\<rparr> (3, 0, 1)
   \<and> hasManualSelection
        (selectByClick (initialPointSelector (example_options\<lparr>threeDClickRadius := - 4\<rparr>))
           (Some example_cloud) [PointMeshObject mesh_rock]
           \<lparr>origin = (3, 0, 1), direction = (0, 0, - 1)\<rparr> (3, 0, 1))"
proof -
  have ray: "search_ray [PointMeshObject mesh_rock] \<lparr>origin = (3, 0, 1), direction = (0, 0, - 1)\<rparr> (3, 0, 1)
      = Some \<lparr>origin = (3, 0, 1), direction = (0, 0, - 1)\<rparr>"
    by (simp add: search_ray_def mesh_rock_def normalize3_def sub3_def lengthSq_def dot3_def scale3_def)
  have neg: "\<not> sqrt d < - 4" if "0 \<le> d" for d :: real
    using real_sqrt_ge_zero[OF that] by linarith
  have a: "no_item_within_radius example_clicked None [] \<lparr>origin = (0, 0, 50), direction = (0, 0, 1)\<rparr> (0, 0, 50)"
    by (simp add: no_item_within_radius_def search_ray_def)
  have b: "hasManualSelection
        (selectByClick example_clicked None [] \<lparr>origin = (0, 0, 50), direction = (0, 0, 1)\<rparr>
           (0, 0, 50))"
    by (simp add: selectByClick_def hasManualSelection_def example_clicked_value)
  have c: "no_item_within_radius
        (initialPointSelector (example_options\<lparr>threeDClickRadius := - 4\<rparr>)) (Some example_cloud)
        [PointMeshObject mesh_rock] \<lparr>origin = (3, 0, 1), direction = (0, 0, - 1)\<rparr> (3, 0, 1)"
    by (simp add: no_item_within_radius_def ray initialPointSelector_def
        neg[OF distanceSqToPoint_nonneg] list_all_iff split: option.splits)
  have "fst (select_near_ray \<lparr>origin = (3, 0, 1), direction = (0, 0, - 1)\<rparr> (- 4) example_cloud)
          = [mesh_jazz, mesh_rock]"
    by (simp add: fst_select_near_ray example_cloud_def mesh_jazz_def mesh_rock_def
      mesh_folk_def distanceSqToPoint_def distanceToSquared_def lengthSq_def dot3_def sub3_def
      add3_def scale3_def)
  then have d: "hasManualSelection
        (selectByClick (initialPointSelector (example_options\<lparr>threeDClickRadius := - 4\<rparr>))
           (Some example_cloud) [PointMeshObject mesh_rock]
           \<lparr>origin = (3, 0, 1), direction = (0, 0, - 1)\<rparr> (3, 0, 1))"
    by (simp add: selectByClick_def hasManualSelection_def ray initialPointSelector_def Let_def)
  from a b c d show ?thesis by simp
qed

section \<open>The directly clicked mesh is a primary mesh\<close>





lemma fst_foldl_restore_step:
  "fst (foldl (restore_step preserved) acc ms) =
     fst acc @ filter (\<lambda>m. label m \<in> set (primaryLabels preserved)) ms"
  by (induction ms arbitrary: acc) (simp_all add: restore_step_def Let_def)







section \<open>Restoring the manual selection\<close>

lemma restoreManualSelection_labels:
  assumes st0: "manualSelectionState ps0 = Some st0"
    and ne: "set (map label (primaryMeshes st0)) \<inter> label ` set ms \<noteq> {}"
  shows "\<exists>st'. manualSelectionState (restoreManualSelection ps (getPreservedManualSelection ps0) ms)
              = Some st'
             \<and> label ` set (primaryMeshes st')
                 = set (map label (primaryMeshes st0)) \<inter> label ` set ms"
proof -
  let ?p = "\<lparr>primaryLabels = map label (primaryMeshes st0),
            clickedLabel = map_option label (directlyClickedMesh st0),
            weights = selectionWeights st0\<rparr>"
  have pres: "getPreservedManualSelection ps0 = Some ?p"
    using st0 by (simp add: getPreservedManualSelection_def)
  let ?found = "foldl (restore_step ?p) ([], None) ms"
  have f: "fst ?found = filter (\<lambda>m. label m \<in> set (map label (primaryMeshes st0))) ms"
    by (simp add: fst_foldl_restore_step)
  have lab: "label ` set (fst ?found) = set (map label (primaryMeshes st0)) \<inter> label ` set ms"
    unfolding f by (auto simp: image_iff) (metis (mono_tags, lifting) image_eqI mem_Collect_eq)
  with ne have "fst ?found \<noteq> []" by auto
  then show ?thesis
    using lab by (simp add: restoreManualSelection_def pres Let_def)
qed

text \<open>
  Claim C3 at a re-projection that keeps none of the preserved labels: the preserved label
  set is \<open>{jazz, rock}\<close>, the new point cloud holds only a mesh labelled punk, so the
  intersection is empty; \<open>restoreManualSelection\<close> returns without touching the state, and
  the manual selection still has the primary meshes labelled jazz and rock of the point
  cloud that no longer exists. (With a non-empty intersection the label set is the
  intersection, \<open>restoreManualSelection_labels\<close>.)
\<close>

theorem restoreManualSelection_keeps_stale_selection:
  "map_option (set \<circ> primaryLabels) (getPreservedManualSelection example_clicked)
     = Some {''jazz'', ''rock''}
   \<and> {''jazz'', ''rock''} \<inter> label ` set reprojected_cloud = {}
   \<and> map_option (map label \<circ> primaryMeshes)
       (manualSelectionState
          (restoreManualSelection example_clicked (getPreservedManualSelection example_clicked)
             reprojected_cloud)) = Some [''jazz'', ''rock'']"
  by (simp add: example_clicked_value getPreservedManualSelection_def restoreManualSelection_def
      restore_step_def reprojected_cloud_def mesh_punk_def mesh_jazz_def mesh_rock_def Let_def)

section \<open>Properties of the embedding selection\<close>

lemma draw_index_bound:
  "(unat (u :: 32 word) * (i + 1)) div 2 ^ 32 < i + 1"
proof -
  have "unat u < 2 ^ LENGTH(32)" by (rule unsigned_less)
  then have "unat u < 2 ^ 32" by simp
  then have "unat u * (i + 1) < 2 ^ 32 * (i + 1)" by (rule mult_less_mono1) simp
  then have "unat u * (i + 1) < (i + 1) * 2 ^ 32" by (simp only: mult.commute)
  then show ?thesis by (rule less_mult_imp_div_less)
qed

lemma shuffle_from_perm:
  "k < length xs \<or> k = 0 \<Longrightarrow>
     mset (fst (shuffle_from k xs seed)) = mset xs
     \<and> length (fst (shuffle_from k xs seed)) = length xs"
proof (induction k arbitrary: xs seed)
  case 0
  then show ?case by simp
next
  case (Suc k)
  then have i: "Suc k < length xs" by simp
  define j where "j = (unat (fst (mulberry32 seed)) * (Suc k + 1)) div 2 ^ 32"
  have "j < Suc k + 1" unfolding j_def by (rule draw_index_bound)
  with i have j: "j < length xs" by simp
  define ys where "ys = xs[Suc k := xs ! j, j := xs ! Suc k]"
  have ys: "mset ys = mset xs" "length ys = length xs"
    unfolding ys_def using mset_swap[OF j i] by simp_all
  have "k < length ys \<or> k = 0" using i ys by simp
  from Suc.IH[OF this, of "snd (mulberry32 seed)"] ys
  show ?case by (simp add: Let_def j_def ys_def)
qed

lemma shuffleEmbeddings_perm:
  "mset (fst (shuffleEmbeddings xs seed)) = mset xs"
  "length (fst (shuffleEmbeddings xs seed)) = length xs"
  "set (fst (shuffleEmbeddings xs seed)) = set xs"
proof -
  have k: "length xs - 1 < length xs \<or> length xs - 1 = 0" by (cases xs) simp_all
  from shuffle_from_perm[OF k, of seed]
  show "mset (fst (shuffleEmbeddings xs seed)) = mset xs"
    and "length (fst (shuffleEmbeddings xs seed)) = length xs"
    by (simp_all add: shuffleEmbeddings_def)
  then show "set (fst (shuffleEmbeddings xs seed)) = set xs"
    by (metis set_mset_mset)
qed

lemma shuffleEmbeddings_Nil: "shuffleEmbeddings [] seed = ([], seed)"
  by (simp add: shuffleEmbeddings_def)

lemma selectEmbeddings_same_size:
  assumes "length prev = n"
  shows "fst (selectEmbeddings cache n prev seed) = prev"
    and "prev \<noteq> [] \<Longrightarrow> snd (selectEmbeddings cache n prev seed) = seed"
  using assms by (auto simp: selectEmbeddings_def Let_def)

lemma selectEmbeddings_larger:
  assumes "length prev > n"
  shows "selectEmbeddings cache n prev seed = (take n prev, seed)"
  using assms by (auto simp: selectEmbeddings_def Let_def)

lemma selectEmbeddings_smaller:
  assumes "prev \<noteq> []" "length prev < n"
  shows "selectEmbeddings cache n prev seed =
           (prev @ fst (shuffleEmbeddings (take (n - length prev) (unused_pool cache prev)) seed),
            snd (shuffleEmbeddings (take (n - length prev) (unused_pool cache prev)) seed))"
  using assms by (auto simp: selectEmbeddings_def Let_def unused_pool_def)

lemma selectEmbeddings_empty:
  "fst (selectEmbeddings cache n [] seed) = take n (fst (shuffleEmbeddings cache seed))"
proof -
  let ?sh = "fst (shuffleEmbeddings cache seed)"
  show ?thesis
  proof (cases "length (take n ?sh) < n")
    case False
    then show ?thesis by (auto simp: selectEmbeddings_def Let_def)
  next
    case True
    then have all: "take n ?sh = ?sh" by simp
    have "filter (\<lambda>e. fst e \<notin> set (map fst ?sh)) ?sh = []"
      by (auto simp: filter_empty_conv)
    then show ?thesis
      using True all by (simp add: selectEmbeddings_def Let_def shuffleEmbeddings_Nil)
  qed
qed

lemma shuffle_from_prefix:
  "k < length ys \<Longrightarrow>
     shuffle_from k ys s =
       (fst (shuffle_from k (take (Suc k) ys) s) @ drop (Suc k) ys,
        snd (shuffle_from k (take (Suc k) ys) s))"
proof (induction k arbitrary: ys s)
  case 0
  then show ?case by (simp add: take_Suc_conv_app_nth Cons_nth_drop_Suc)
next
  case (Suc k)
  define j where "j = (unat (fst (mulberry32 s)) * (Suc k + 1)) div 2 ^ 32"
  have "j < Suc k + 1" unfolding j_def by (rule draw_index_bound)
  then have j: "j < Suc (Suc k)" by simp
  define s' where "s' = snd (mulberry32 s)"
  define zs where "zs = ys[Suc k := ys ! j, j := ys ! Suc k]"
  define ys' where "ys' = take (Suc (Suc k)) ys"
  define zs' where "zs' = ys'[Suc k := ys' ! j, j := ys' ! Suc k]"
  have len: "Suc k < length ys" by fact
  have zs': "zs' = take (Suc (Suc k)) zs"
    using j len by (simp add: zs'_def zs_def ys'_def take_update_swap)
  have dz: "drop (Suc (Suc k)) zs = drop (Suc (Suc k)) ys"
    using j by (simp add: zs_def)
  have lz: "k < length zs" "k < length zs'" "Suc k < length zs"
    using len by (simp_all add: zs_def zs'_def ys'_def)
  have step: "shuffle_from (Suc k) ys s = shuffle_from k zs s'"
    by (simp add: Let_def j_def s'_def zs_def)
  have step': "shuffle_from (Suc k) ys' s = shuffle_from k zs' s'"
    by (simp add: Let_def j_def s'_def zs'_def)
  have tz: "take (Suc k) zs' = take (Suc k) zs" by (simp add: zs' min_def)
  have dz': "drop (Suc k) zs' = [zs ! Suc k]"
    using lz(3) by (simp add: zs' drop_take take_Suc_conv_app_nth)
  have dzs: "drop (Suc k) zs = zs ! Suc k # drop (Suc (Suc k)) ys"
    using Cons_nth_drop_Suc[OF lz(3)] dz by simp
  show ?case
    unfolding step ys'_def[symmetric] step'
    by (subst Suc.IH[OF lz(1)], subst (1 2) Suc.IH[OF lz(2)]) (simp add: tz dz' dzs)
qed

lemma shuffleEmbeddings_short: "length xs \<le> 1 \<Longrightarrow> shuffleEmbeddings xs s = (xs, s)"
  by (cases xs) (simp_all add: shuffleEmbeddings_def)

lemma shuffleEmbeddings_unfold:
  fixes xs :: "'a list" and s :: "32 word"
  assumes "2 \<le> length xs"
  defines "i \<equiv> length xs - 1"
  defines "j \<equiv> (unat (fst (mulberry32 s)) * length xs) div 2 ^ 32"
  defines "swapped \<equiv> xs[i := xs ! j, j := xs ! i]"
  shows "shuffleEmbeddings xs s =
           (fst (shuffleEmbeddings (butlast swapped) (snd (mulberry32 s))) @ [xs ! j],
            snd (shuffleEmbeddings (butlast swapped) (snd (mulberry32 s))))"
proof -
  obtain k where k: "length xs = Suc (Suc k)"
    using assms(1) by (metis Suc_le_D numeral_2_eq_2 Suc_le_mono le0 not0_implies_Suc le_zero_eq)
  have i: "i = Suc k" by (simp add: i_def k)
  have jl: "j < length xs"
    unfolding j_def using draw_index_bound[of "fst (mulberry32 s)" "Suc k"] by (simp add: k)
  have ls: "length swapped = Suc (Suc k)" by (simp add: swapped_def k)
  have "shuffleEmbeddings xs s = shuffle_from k swapped (snd (mulberry32 s))"
    by (simp add: shuffleEmbeddings_def k Let_def swapped_def i j_def)
  also have "\<dots> = (fst (shuffle_from k (take (Suc k) swapped) (snd (mulberry32 s))) @ drop (Suc k) swapped,
        snd (shuffle_from k (take (Suc k) swapped) (snd (mulberry32 s))))"
    by (rule shuffle_from_prefix) (simp add: ls)
  also have "take (Suc k) swapped = butlast swapped"
    by (simp add: butlast_conv_take ls)
  also have "drop (Suc k) swapped = [xs ! j]"
  proof -
    have "drop (Suc k) swapped = [swapped ! Suc k]"
      using ls by (metis Cons_nth_drop_Suc drop_all lessI order_refl)
    moreover have "swapped ! Suc k = xs ! j"
      using jl k by (cases "j = Suc k") (simp_all add: swapped_def i)
    ultimately show ?thesis by simp
  qed
  also have "shuffle_from k (butlast swapped) (snd (mulberry32 s))
           = shuffleEmbeddings (butlast swapped) (snd (mulberry32 s))"
    by (simp add: shuffleEmbeddings_def ls)
  finally show ?thesis .
qed


lemma take_needed_subset:
  "set (take k (unused_pool cache prev)) \<subseteq> {e \<in> set cache. fst e \<notin> fst ` set prev}"
  unfolding unused_pool_def by (force dest!: in_set_takeD)

text \<open>
  Claim C6. In \<open>generatePointCloudData\<close>, for a natural number \<open>pointCount\<close>: a previous
  selection whose size equals the requested point count is used verbatim (and, unless it
  is empty, the generator is not advanced); a larger one is cut to its front slice, with no
  shuffle; a smaller, non-empty one is extended by the first \<open>pointCount - size\<close> entries of
  the unused pool (cache entries whose label is not selected yet) in cache order, the same
  entries for every seed: the seeded shuffle runs on these entries only and decides the
  order in which they are appended, not which entries are drawn; for an empty one the whole
  pool is shuffled by the seeded generator and its first \<open>pointCount\<close> entries are taken.
  The shuffle itself is the Fisher-Yates loop over the generator \<open>mulberry32\<close>: a list of
  at most one entry is returned as it is without advancing the generator; otherwise the
  entry at the drawn index \<open>j = floor (u * length / 2^32)\<close> goes to the last place, the last
  entry takes its place, and the remaining front part is shuffled with the advanced
  generator.
\<close>

theorem selectEmbeddings_rule:
  fixes embeddingsCache previous pool :: "embedding list" and pointCount :: nat
    and seed s :: "32 word"
  defines "selected \<equiv> fst (selectEmbeddings embeddingsCache pointCount previous seed)"
  defines "seed' \<equiv> snd (selectEmbeddings embeddingsCache pointCount previous seed)"
  defines "needed \<equiv> take (pointCount - length previous) (unused_pool embeddingsCache previous)"
  defines "i \<equiv> length pool - 1"
  defines "j \<equiv> (unat (fst (mulberry32 s)) * length pool) div 2 ^ 32"
  defines "rest \<equiv> shuffleEmbeddings (butlast (pool[i := pool ! j, j := pool ! i])) (snd (mulberry32 s))"
  shows "(length previous = pointCount \<longrightarrow>
            selected = previous \<and> (previous \<noteq> [] \<longrightarrow> seed' = seed))
       \<and> (length previous > pointCount \<longrightarrow>
            selected = take pointCount previous \<and> seed' = seed)
       \<and> (previous \<noteq> [] \<and> length previous < pointCount \<longrightarrow>
            selected = previous @ fst (shuffleEmbeddings needed seed)
          \<and> seed' = snd (shuffleEmbeddings needed seed)
          \<and> set (drop (length previous) selected) = set needed)
       \<and> (previous = [] \<longrightarrow>
            selected = take pointCount (fst (shuffleEmbeddings embeddingsCache seed)))
       \<and> mset (fst (shuffleEmbeddings pool s)) = mset pool
       \<and> (length pool \<le> 1 \<longrightarrow> shuffleEmbeddings pool s = (pool, s))
       \<and> (2 \<le> length pool \<longrightarrow>
            shuffleEmbeddings pool s = (fst rest @ [pool ! j], snd rest))"
proof -
  have a: "length previous = pointCount \<longrightarrow>
            selected = previous \<and> (previous \<noteq> [] \<longrightarrow> seed' = seed)"
    unfolding selected_def seed'_def by (simp add: selectEmbeddings_same_size)
  have b: "length previous > pointCount \<longrightarrow>
            selected = take pointCount previous \<and> seed' = seed"
    unfolding selected_def seed'_def by (simp add: selectEmbeddings_larger)
  have c: "previous \<noteq> [] \<and> length previous < pointCount \<longrightarrow>
            selected = previous @ fst (shuffleEmbeddings needed seed)
          \<and> seed' = snd (shuffleEmbeddings needed seed)
          \<and> set (drop (length previous) selected) = set needed"
    unfolding selected_def seed'_def needed_def
    by (simp add: selectEmbeddings_smaller shuffleEmbeddings_perm)
  have d: "previous = [] \<longrightarrow>
            selected = take pointCount (fst (shuffleEmbeddings embeddingsCache seed))"
    unfolding selected_def by (simp add: selectEmbeddings_empty)
  have e: "mset (fst (shuffleEmbeddings pool s)) = mset pool"
    by (rule shuffleEmbeddings_perm)
  have f: "length pool \<le> 1 \<longrightarrow> shuffleEmbeddings pool s = (pool, s)"
    by (simp add: shuffleEmbeddings_short)
  have g: "2 \<le> length pool \<longrightarrow>
            shuffleEmbeddings pool s = (fst rest @ [pool ! j], snd rest)"
    unfolding rest_def i_def j_def by (rule impI) (rule shuffleEmbeddings_unfold)
  from a b c d e f g show ?thesis by (intro conjI)
qed

lemma mulberry32_1: "mulberry32 1 = (2693262067, 1831565814)"
  by (simp add: mulberry32_def Let_def)

lemma mulberry32_7: "mulberry32 7 = (50271532, 1831565820)"
  by (simp add: mulberry32_def Let_def)

lemma mulberry32_1831565814: "mulberry32 1831565814 = (11749833, 3663131627)"
  by (simp add: mulberry32_def Let_def)

lemma shuffle_pair_7: "shuffleEmbeddings [a, b] 7 = ([b, a], 1831565820)"
  by (simp add: shuffleEmbeddings_def Let_def mulberry32_7)

lemma shuffle_triple_1: "shuffleEmbeddings [a, b, c] 1 = ([c, a, b], 3663131627)"
proof -
  have "shuffle_from (Suc (Suc 0)) [a, b, c] 1 = ([c, a, b], 3663131627)"
    by (simp add: Let_def mulberry32_1 mulberry32_1831565814)
  moreover have "length [a, b, c] - 1 = Suc (Suc 0)" by simp
  ultimately show ?thesis by (simp only: shuffleEmbeddings_def)
qed

theorem selectEmbeddings_rule_witness:
  "fst (selectEmbeddings example_cache 1 [(''jazz'', [1, 0])] 7) = [(''jazz'', [1, 0])]
   \<and> fst (selectEmbeddings example_cache 1 [(''jazz'', [1, 0]), (''rock'', [0, 1])] 7)
       = [(''jazz'', [1, 0])]
   \<and> selectEmbeddings example_cache 3 [(''jazz'', [1, 0])] 7
       = ([(''jazz'', [1, 0]), (''folk'', [1, 0]), (''rock'', [0, 1])], 1831565820)
   \<and> fst (selectEmbeddings example_cache 2 [] 7)
       = take 2 (fst (shuffleEmbeddings example_cache 7))
   \<and> shuffleEmbeddings [(''rock'', [0 :: real, 1 :: real]), (''folk'', [1, 0])] 7
       = ([(''folk'', [1, 0]), (''rock'', [0, 1])], 1831565820)"
  using selectEmbeddings_rule [where embeddingsCache = example_cache and pointCount = 1
          and previous = "[(''jazz'', [1, 0])]" and seed = 7
          and pool = "[(''rock'', [0, 1]), (''folk'', [1, 0])]" and s = 7]
        selectEmbeddings_rule [where embeddingsCache = example_cache and pointCount = 1
          and previous = "[(''jazz'', [1, 0]), (''rock'', [0, 1])]" and seed = 7
          and pool = "[]" and s = 7]
        selectEmbeddings_rule [where embeddingsCache = example_cache and pointCount = 3
          and previous = "[(''jazz'', [1, 0])]" and seed = 7 and pool = "[]" and s = 7]
        selectEmbeddings_rule [where embeddingsCache = example_cache and pointCount = 2
          and previous = "[]" and seed = 7 and pool = "[]" and s = 7]
  by (simp add: unused_pool_def example_cache_def mulberry32_7 shuffleEmbeddings_short
      prod_eq_iff)

theorem selectEmbeddings_shuffled_pool_counterexample:
  "fst (selectEmbeddings example_cache 2 [(''jazz'', [1, 0])] 1)
     = [(''jazz'', [1, 0]), (''rock'', [0, 1])]
   \<and> spec_selectEmbeddings example_cache 2 [(''jazz'', [1, 0])] 1
     = [(''jazz'', [1, 0]), (''punk'', [1, 1])]
   \<and> fst (selectEmbeddings example_cache 2 [(''jazz'', [1, 0])] 1)
     \<noteq> spec_selectEmbeddings example_cache 2 [(''jazz'', [1, 0])] 1"
  by (simp add: selectEmbeddings_def spec_selectEmbeddings_def unused_pool_def example_cache_def
      Let_def shuffle_triple_1 shuffleEmbeddings_short)

section \<open>Properties of the label visibility\<close>

lemma set_foldl_set_add: "set (foldl set_add s xs) = set s \<union> set xs"
  by (induction xs arbitrary: s) (auto simp: set_add_def)

lemma set_new_Set: "set (new_Set xs) = set xs"
  by (simp add: new_Set_def set_foldl_set_add)

lemma distinct_foldl_set_add: "distinct s \<Longrightarrow> distinct (foldl set_add s xs)"
  by (induction xs arbitrary: s) (auto simp: set_add_def)

lemma distinct_new_Set: "distinct (new_Set xs)"
  by (simp add: new_Set_def distinct_foldl_set_add)

lemma foldl_show_step:
  "foldl show_step vis ms m = (if m \<in> set ms \<and> parent m \<noteq> None then Visible else vis m)"
  by (induction ms arbitrary: vis) (auto simp: show_step_def)

lemma foldl_hide_step:
  "foldl (hide_step new) vis old m =
     (if m \<in> set old \<and> m \<notin> set new \<and> parent m \<noteq> None then Hidden else vis m)"
  by (induction old arbitrary: vis) (auto simp: hide_step_def)

lemma not_occluded_has_parent: "\<not> isOccluded view m \<Longrightarrow> parent m \<noteq> None"
  by (cases "parent m") (simp_all add: isOccluded_def)

lemma set_map_filter_conv: "set (List.map_filter g xs) = {y. \<exists>x\<in>set xs. g x = Some y}"
  by (induction xs) (auto split: option.splits)

lemma candidate_entry_Some:
  "candidate_entry view hl t h m = Some e \<longleftrightarrow>
     m \<notin> set hl
     \<and> (\<exists>wp. parent m = Some wp \<and> frustumContains view wp \<and> in_cone view t h wp
              \<and> e = (m, distanceTo wp (cameraPos view)))
     \<and> \<not> isOccluded view m"
  by (auto simp: candidate_entry_def split: option.splits)

lemma set_label_candidates:
  "set (label_candidates ms view hl deg h) =
     {(m, d). m \<in> set ms \<and> m \<notin> set hl
        \<and> (\<exists>wp. parent m = Some wp \<and> frustumContains view wp
                 \<and> in_cone view (tan (deg * (pi / 180))) h wp
                 \<and> d = distanceTo wp (cameraPos view))
        \<and> \<not> isOccluded view m}"
  by (auto simp: label_candidates_def set_map_filter_conv candidate_entry_Some)

lemma nearest_taken:
  assumes "a \<in> set (take n (sort_key snd cs))" "b \<in> set (drop n (sort_key snd cs))"
  shows "snd a \<le> snd b"
proof -
  have "sorted (map snd (take n (sort_key snd cs) @ drop n (sort_key snd cs)))"
    by simp
  then show ?thesis
    using assms unfolding map_append sorted_append by auto
qed


lemma updateLabelVisibilities_run:
  assumes run: "\<not> throttled frameCount labelUpdateThrottle force"
  shows "updateLabelVisibilities lr meshes view hl frameCount labelUpdateThrottle deg h n force =
     (let new = new_Set (new_Set (map fst (take n (sort_key snd (label_candidates meshes view hl deg h))))
                         @ filter (\<lambda>m. \<not> isOccluded view m) hl)
      in \<lparr>pointsWithVisibleLabels = new,
          labelVisibility = foldl show_step
             (foldl (hide_step new) (labelVisibility lr) (pointsWithVisibleLabels lr)) new\<rparr>)"
  using run by (simp add: updateLabelVisibilities_def Let_def)

text \<open>
  Claim C7. In every run of \<open>updateLabelVisibilities\<close> that is not throttled, the meshes
  outside the highlighted set that pass the frustum, forward-cone and occlusion tests are
  ranked by their distance to the camera, ascending, and only the nearest
  \<open>maxInViewLabels\<close> of them are made visible; a highlighted mesh skips the frustum and
  cone tests but not the occlusion test, and it is shown exactly when it is not occluded,
  with no limit on their number. The labels of the meshes shown are set visible, those of
  the meshes shown before and no longer shown are hidden.
\<close>

theorem updateLabelVisibilities_budget:
  fixes lr :: LabelRenderer and meshes highlightedObjects :: "mesh list" and view :: camera_view
    and frameCount labelUpdateThrottle maxInViewLabels :: nat
    and labelSelectionConeDegrees labelSelectionConeHeight :: real and force :: bool
  defines "lr' \<equiv> updateLabelVisibilities lr meshes view highlightedObjects frameCount
                    labelUpdateThrottle labelSelectionConeDegrees labelSelectionConeHeight
                    maxInViewLabels force"
  defines "ranked \<equiv> sort_key snd (label_candidates meshes view highlightedObjects
                      labelSelectionConeDegrees labelSelectionConeHeight)"
  assumes run: "\<not> throttled frameCount labelUpdateThrottle force"
  shows "set ranked =
           {(m, d). m \<in> set meshes \<and> m \<notin> set highlightedObjects
              \<and> (\<exists>wp. parent m = Some wp \<and> frustumContains view wp
                       \<and> in_cone view (tan (labelSelectionConeDegrees * (pi / 180)))
                            labelSelectionConeHeight wp
                       \<and> d = distanceTo wp (cameraPos view))
              \<and> \<not> isOccluded view m}
       \<and> sorted (map snd ranked)
       \<and> (\<forall>a\<in>set (take maxInViewLabels ranked). \<forall>b\<in>set (drop maxInViewLabels ranked).
             snd a \<le> snd b)
       \<and> length (take maxInViewLabels ranked) \<le> maxInViewLabels
       \<and> set (pointsWithVisibleLabels lr')
           = fst ` set (take maxInViewLabels ranked)
             \<union> {m \<in> set highlightedObjects. \<not> isOccluded view m}
       \<and> (\<forall>m\<in>set highlightedObjects.
             m \<in> set (pointsWithVisibleLabels lr') \<longleftrightarrow> \<not> isOccluded view m)
       \<and> (\<forall>m\<in>set (pointsWithVisibleLabels lr'). labelVisibility lr' m = Visible)
       \<and> (\<forall>m\<in>set (pointsWithVisibleLabels lr).
             m \<notin> set (pointsWithVisibleLabels lr') \<and> parent m \<noteq> None \<longrightarrow>
             labelVisibility lr' m = Hidden)"
proof -
  let ?new = "new_Set (new_Set (map fst (take maxInViewLabels ranked))
                       @ filter (\<lambda>m. \<not> isOccluded view m) highlightedObjects)"
  have lr': "lr' = \<lparr>pointsWithVisibleLabels = ?new,
          labelVisibility = foldl show_step
             (foldl (hide_step ?new) (labelVisibility lr) (pointsWithVisibleLabels lr)) ?new\<rparr>"
    unfolding lr'_def ranked_def updateLabelVisibilities_run[OF run] Let_def ..
  have cands: "set ranked =
           {(m, d). m \<in> set meshes \<and> m \<notin> set highlightedObjects
              \<and> (\<exists>wp. parent m = Some wp \<and> frustumContains view wp
                       \<and> in_cone view (tan (labelSelectionConeDegrees * (pi / 180)))
                            labelSelectionConeHeight wp
                       \<and> d = distanceTo wp (cameraPos view))
              \<and> \<not> isOccluded view m}"
    unfolding ranked_def by (simp add: set_label_candidates)
  have srt: "sorted (map snd ranked)" unfolding ranked_def by simp
  have near: "\<forall>a\<in>set (take maxInViewLabels ranked). \<forall>b\<in>set (drop maxInViewLabels ranked).
             snd a \<le> snd b"
    unfolding ranked_def using nearest_taken by blast
  have vis: "set (pointsWithVisibleLabels lr')
           = fst ` set (take maxInViewLabels ranked)
             \<union> {m \<in> set highlightedObjects. \<not> isOccluded view m}"
    by (auto simp: lr' set_new_Set)
  have inview: "m \<notin> set highlightedObjects \<and> \<not> isOccluded view m"
    if "m \<in> fst ` set (take maxInViewLabels ranked)" for m
  proof -
    from that obtain d where "(m, d) \<in> set ranked" by (auto dest: in_set_takeD)
    then show ?thesis unfolding cands by simp
  qed
  have hl: "\<forall>m\<in>set highlightedObjects.
             m \<in> set (pointsWithVisibleLabels lr') \<longleftrightarrow> \<not> isOccluded view m"
    unfolding vis using inview by auto
  have shown: "\<forall>m\<in>set (pointsWithVisibleLabels lr'). labelVisibility lr' m = Visible"
  proof
    fix m assume m: "m \<in> set (pointsWithVisibleLabels lr')"
    then have "\<not> isOccluded view m" unfolding vis using inview by auto
    then have "parent m \<noteq> None" by (rule not_occluded_has_parent)
    with m show "labelVisibility lr' m = Visible"
      by (simp add: lr' foldl_show_step)
  qed
  have hidden: "\<forall>m\<in>set (pointsWithVisibleLabels lr).
             m \<notin> set (pointsWithVisibleLabels lr') \<and> parent m \<noteq> None \<longrightarrow>
             labelVisibility lr' m = Hidden"
    by (simp add: lr' foldl_show_step foldl_hide_step)
  from cands srt near vis hl shown hidden show ?thesis by simp
qed


lemma example_not_occluded:
  "\<not> isOccluded example_view mesh_jazz" "\<not> isOccluded example_view mesh_rock"
  "\<not> isOccluded example_view mesh_folk"
  by (simp_all add: isOccluded_def example_view_def mesh_jazz_def mesh_rock_def mesh_folk_def)

lemma example_candidates:
  "label_candidates example_cloud example_view [mesh_folk] 45 10 = [(mesh_jazz, 0), (mesh_rock, 3)]"
proof -
  have j: "candidate_entry example_view [mesh_folk] 1 10 mesh_jazz = Some (mesh_jazz, 0)"
    using example_not_occluded(1)
    by (simp add: candidate_entry_def in_cone_def Let_def example_view_def mesh_jazz_def
          mesh_folk_def sub3_def dot3_def lengthSq_def distanceTo_def distanceToSquared_def)
  have r: "candidate_entry example_view [mesh_folk] 1 10 mesh_rock = Some (mesh_rock, 3)"
    using example_not_occluded(2)
    by (simp add: candidate_entry_def in_cone_def Let_def example_view_def mesh_rock_def
          mesh_folk_def sub3_def dot3_def lengthSq_def distanceTo_def distanceToSquared_def sqrt_9)
  have f: "candidate_entry example_view [mesh_folk] 1 10 mesh_folk = None"
    by (simp add: candidate_entry_def)
  show ?thesis
    by (simp add: label_candidates_def tan_45 example_cloud_def j r f)
qed

theorem updateLabelVisibilities_budget_witness:
  "\<not> throttled 0 3 False
   \<and> set (pointsWithVisibleLabels
        (updateLabelVisibilities example_renderer example_cloud example_view [mesh_folk]
           0 3 45 10 1 False)) = {mesh_jazz, mesh_folk}
   \<and> labelVisibility
        (updateLabelVisibilities example_renderer example_cloud example_view [mesh_folk]
           0 3 45 10 1 False) mesh_folk = Visible"
proof -
  have run: "\<not> throttled 0 3 False" by (simp add: throttled_def)
  note inst = updateLabelVisibilities_budget [OF run, where lr = example_renderer
      and meshes = example_cloud and view = example_view and highlightedObjects = "[mesh_folk]"
      and labelSelectionConeDegrees = 45 and labelSelectionConeHeight = 10
      and maxInViewLabels = 1]
  let ?lr = "updateLabelVisibilities example_renderer example_cloud example_view [mesh_folk]
           0 3 45 10 1 False"
  from inst have vis: "set (pointsWithVisibleLabels ?lr)
      = fst ` set (take 1 (sort_key snd (label_candidates example_cloud example_view [mesh_folk] 45 10)))
        \<union> {m \<in> set [mesh_folk]. \<not> isOccluded example_view m}"
    and shown: "\<forall>m\<in>set (pointsWithVisibleLabels ?lr). labelVisibility ?lr m = Visible"
    by blast+
  have set: "set (pointsWithVisibleLabels ?lr) = {mesh_jazz, mesh_folk}"
    unfolding vis by (auto simp: example_candidates example_not_occluded)
  with shown have "labelVisibility ?lr mesh_folk = Visible" by simp
  with run set show ?thesis by simp
qed

end
